theory Spec2Isabelle
  imports Complex_Main "HOL-Library.Char_ord" "HOL-Library.List_Lexorder"
begin

section \<open>Big Ten completions build script: a shallow embedding\<close>

text \<open>
  The development follows \<^verbatim>\<open>scripts/build_research_bigten_completions.py\<close>.
  A Python \<^verbatim>\<open>str\<close> is a \<^typ>\<open>string\<close>, one \<^typ>\<open>char\<close> per code point,
  so the text covered is the one made of code points below 256.
  Exceptions are values of the type \<open>error\<close>; a function that may raise returns
  \<open>error + 'a\<close>, with \<open>Inl\<close> for the exception.
\<close>

subsection \<open>Python string methods\<close>

text \<open>
  \<^verbatim>\<open>str.strip()\<close> with no argument removes the characters for which
  \<^verbatim>\<open>str.isspace\<close> holds; below 256 these are the code points 9 to 13, 28 to 32,
  133 and 160.
\<close>

definition is_space :: "char \<Rightarrow> bool" where
  "is_space c = (of_char c \<in> set [9, 10, 11, 12, 13, 28, 29, 30, 31, 32, 133, 160 :: nat])"

definition strip :: "string \<Rightarrow> string" where
  "strip s = rev (dropWhile is_space (rev (dropWhile is_space s)))"

definition is_digit :: "char \<Rightarrow> bool" where
  "is_digit c = (c \<in> set ''0123456789'')"

text \<open>
  \<^verbatim>\<open>str.lower()\<close>: below 256 the upper-case letters are A to Z and the code points
  192 to 222 other than 215, and each is 32 below its lower-case letter.
\<close>

definition lower_char :: "char \<Rightarrow> char" where
  "lower_char c =
     (let n = (of_char c :: nat)
      in if (65 \<le> n \<and> n \<le> 90) \<or> (192 \<le> n \<and> n \<le> 222 \<and> n \<noteq> 215)
         then char_of (n + 32) else c)"

definition lower :: "string \<Rightarrow> string" where
  "lower s = map lower_char s"

text \<open>\<^verbatim>\<open>str.zfill(width)\<close>: the zeros go after a leading sign.\<close>

definition zfill :: "nat \<Rightarrow> string \<Rightarrow> string" where
  "zfill width s =
     (if width \<le> length s then s
      else case s of
             c # cs \<Rightarrow>
               if c = CHR ''+'' \<or> c = CHR ''-''
               then c # replicate (width - length s) CHR ''0'' @ cs
               else replicate (width - length s) CHR ''0'' @ s
           | [] \<Rightarrow> replicate width CHR ''0'')"

text \<open>
  \<^verbatim>\<open>s.split(sep, 1)\<close> for a one-character separator: the text before the first
  separator and the text after it, or the whole text alone when there is no separator.
\<close>

fun partition_at :: "char \<Rightarrow> string \<Rightarrow> (string \<times> string) option" where
  "partition_at sep [] = None"
| "partition_at sep (c # cs) =
     (if c = sep then Some ([], cs)
      else case partition_at sep cs of
             None \<Rightarrow> None
           | Some (before, after) \<Rightarrow> Some (c # before, after))"

definition split1 :: "char \<Rightarrow> string \<Rightarrow> string list" where
  "split1 sep s =
     (case partition_at sep s of None \<Rightarrow> [s] | Some (before, after) \<Rightarrow> [before, after])"

subsection \<open>Regular expressions\<close>

text \<open>
  The two patterns of the script use literal characters, \<^verbatim>\<open>\d\<close>, \<^verbatim>\<open>^\<close>,
  \<^verbatim>\<open>$\<close>, alternation, \<^verbatim>\<open>?\<close> and \<^verbatim>\<open>{n}\<close>. A matcher state is the text
  still to read together with a flag that is true while nothing has been read.
  \<open>matches r st\<close> lists the states the backtracking matcher of \<^verbatim>\<open>re\<close> can reach
  from \<open>st\<close> by matching \<open>r\<close>, in the order in which it tries them.
  \<^verbatim>\<open>$\<close> matches at the end and just before a newline that ends the text.
\<close>

datatype regex =
    Chr char
  | Digit
  | Bol
  | Eol
  | Seq regex regex
  | Alt regex regex
  | Opt regex
  | Rep nat regex

type_synonym mstate = "bool \<times> string"

fun rep :: "nat \<Rightarrow> (mstate \<Rightarrow> mstate list) \<Rightarrow> mstate \<Rightarrow> mstate list" where
  "rep 0 f st = [st]"
| "rep (Suc n) f st = concat (map (rep n f) (f st))"

fun matches :: "regex \<Rightarrow> mstate \<Rightarrow> mstate list" where
  "matches (Chr c) (at_start, s) =
     (case s of [] \<Rightarrow> [] | x # xs \<Rightarrow> if x = c then [(False, xs)] else [])"
| "matches Digit (at_start, s) =
     (case s of [] \<Rightarrow> [] | x # xs \<Rightarrow> if is_digit x then [(False, xs)] else [])"
| "matches Bol (at_start, s) = (if at_start then [(at_start, s)] else [])"
| "matches Eol (at_start, s) =
     (if s = [] \<or> s = [CHR 0x0A] then [(at_start, s)] else [])"
| "matches (Seq a b) st = concat (map (matches b) (matches a st))"
| "matches (Alt a b) st = matches a st @ matches b st"
| "matches (Opt a) st = matches a st @ [st]"
| "matches (Rep n a) st = rep n (matches a) st"

text \<open>\<^verbatim>\<open>re.fullmatch\<close>: some way of matching reads the whole text.\<close>

definition fullmatch :: "regex \<Rightarrow> string \<Rightarrow> bool" where
  "fullmatch r s = (\<exists>st \<in> set (matches r (True, s)). snd st = [])"

text \<open>
  \<^verbatim>\<open>re.sub(r, "", s)\<close>: scanning from the left, the first match found at a position
  is removed and the scan goes on after it; where there is no match, or only an empty
  one, the character is kept.
\<close>

function sub_from :: "regex \<Rightarrow> mstate \<Rightarrow> string" where
  "sub_from r (at_start, []) = []"
| "sub_from r (at_start, c # cs) =
     (case matches r (at_start, c # cs) of
        [] \<Rightarrow> c # sub_from r (False, cs)
      | (b, rest) # _ \<Rightarrow>
          if length rest < length (c # cs) then sub_from r (False, rest)
          else c # sub_from r (False, cs))"
  by pat_completeness auto
termination
  by (relation "measure (\<lambda>(r, st). length (snd st))") auto

definition re_sub_empty :: "regex \<Rightarrow> string \<Rightarrow> string" where
  "re_sub_empty r s = sub_from r (True, s)"

subsection \<open>\<^verbatim>\<open>clean_excel_text_wrapper\<close>\<close>

text \<open>The pattern \<^verbatim>\<open>^="?|"$\<close>.\<close>

definition wrapper_pattern :: regex where
  "wrapper_pattern =
     Alt (Seq Bol (Seq (Chr CHR ''='') (Opt (Chr CHR 0x22)))) (Seq (Chr CHR 0x22) Eol)"

text \<open>
  What the chain \<^verbatim>\<open>.str.strip().str.replace(r'^="?|"$', "", regex=True).str.strip()\<close>
  does to one text of the series.
\<close>

definition clean_text :: "string \<Rightarrow> string" where
  "clean_text s = strip (re_sub_empty wrapper_pattern (strip s))"

text \<open>
  The series is a list of cells, \<open>None\<close> for \<^verbatim>\<open>pd.NA\<close>, which every step of the
  chain leaves as it is.
\<close>

definition clean_excel_text_wrapper :: "string option list \<Rightarrow> string option list" where
  "clean_excel_text_wrapper series = map (map_option clean_text) series"

subsection \<open>Python floats\<close>

text \<open>
  A \<^verbatim>\<open>float\<close> is an IEEE 754 binary64 number: a sign and a magnitude, an infinity
  with its sign, or a NaN. The magnitude of a finite number is kept as the non-negative
  rational it denotes.
\<close>

datatype pyfloat = Finite bool rat | Infinity bool | NaN

definition pow2 :: "int \<Rightarrow> rat" where
  "pow2 e = (if 0 \<le> e then 2 ^ nat e else 1 / 2 ^ nat (- e))"

definition pow10 :: "int \<Rightarrow> rat" where
  "pow10 e = (if 0 \<le> e then 10 ^ nat e else 1 / 10 ^ nat (- e))"

fun num_digits :: "nat \<Rightarrow> nat \<Rightarrow> nat" where
  "num_digits b n = (if n = 0 \<or> b < 2 then 0 else Suc (num_digits b (n div b)))"

declare num_digits.simps [simp del]

text \<open>
  The integer \<open>e\<close> with \<open>b ^ e \<le> q < b ^ (e + 1)\<close>, for a positive \<open>q\<close>: one less than
  the number of digits of the integer part when \<open>1 \<le> q\<close>, and otherwise the negated
  number of digits of the integer just below \<open>1 / q\<close>.
\<close>

definition floor_log :: "nat \<Rightarrow> rat \<Rightarrow> int" where
  "floor_log b q =
     (if 1 \<le> q then int (num_digits b (nat \<lfloor>q\<rfloor>)) - 1
      else - int (num_digits b (nat (\<lceil>1 / q\<rceil> - 1))))"

definition round_half_even :: "rat \<Rightarrow> int" where
  "round_half_even q =
     (let n = \<lfloor>q\<rfloor>; d = q - of_int n
      in if d < 1 / 2 then n else if 1 / 2 < d then n + 1 else if even n then n else n + 1)"

text \<open>
  The binary64 number nearest to a non-negative rational, ties to the even significand:
  53 bits of significand, the exponent of the last bit not below -1074, and an infinity
  when the rounded value reaches \<open>2 ^ 1024\<close>.
\<close>

definition to_double :: "bool \<Rightarrow> rat \<Rightarrow> pyfloat" where
  "to_double negative q =
     (if q = 0 then Finite negative 0
      else let e = max (floor_log 2 q) (- 1022) - 52;
               v = of_int (round_half_even (q / pow2 e)) * pow2 e
           in if pow2 1024 \<le> v then Infinity negative else Finite negative v)"

subsubsection \<open>Decimal text of numbers\<close>

fun show_nat :: "nat \<Rightarrow> string" where
  "show_nat n =
     (if n < 10 then [''0123456789'' ! n]
      else show_nat (n div 10) @ [''0123456789'' ! (n mod 10)])"

declare show_nat.simps [simp del]

definition show_int :: "int \<Rightarrow> string" where
  "show_int i = (if i < 0 then CHR ''-'' # show_nat (nat (- i)) else show_nat (nat i))"

definition pad_left :: "nat \<Rightarrow> string \<Rightarrow> string" where
  "pad_left width s = replicate (width - length s) CHR ''0'' @ s"

definition digit_val :: "char \<Rightarrow> nat" where
  "digit_val c = of_char c - 48"

definition digits_val :: "string \<Rightarrow> nat" where
  "digits_val s = foldl (\<lambda>n c. 10 * n + digit_val c) 0 s"

subsubsection \<open>\<^verbatim>\<open>float(s)\<close>\<close>

text \<open>
  \<^verbatim>\<open>float\<close> of a text: an underscore must stand between two digits and is dropped;
  white space around the number is dropped (the code points 9 to 13, 32, 133 and 160);
  then comes an optional sign followed by \<^verbatim>\<open>inf\<close>, \<^verbatim>\<open>infinity\<close> or
  \<^verbatim>\<open>nan\<close> in any case, or by a decimal number with an optional exponent. Anything
  else raises \<^verbatim>\<open>ValueError\<close>.
\<close>

datatype reason =
    Not_a_float string
  | Not_enough_values_to_unpack
  | Cannot_convert_non_finite
  | Missing_UNITID_column "string list"
  | Expected_18_institutions nat
  | Missing_cip2_title nat
  | Missing_cip6_title nat

datatype error =
    ValueError reason
  | TypeError
  | KeyError
  | FileNotFoundError string

definition is_float_space :: "char \<Rightarrow> bool" where
  "is_float_space c = (of_char c \<in> set [9, 10, 11, 12, 13, 32, 133, 160 :: nat])"

definition float_strip :: "string \<Rightarrow> string" where
  "float_strip s = rev (dropWhile is_float_space (rev (dropWhile is_float_space s)))"

fun underscores_ok :: "char \<Rightarrow> string \<Rightarrow> bool" where
  "underscores_ok prev [] = (prev \<noteq> CHR ''_'')"
| "underscores_ok prev (c # cs) =
     ((if c = CHR ''_'' then is_digit prev else (prev = CHR ''_'' \<longrightarrow> is_digit c))
      \<and> underscores_ok c cs)"

definition split_sign :: "string \<Rightarrow> bool \<times> string" where
  "split_sign s =
     (case s of
        c # cs \<Rightarrow> if c = CHR ''-'' then (True, cs) else if c = CHR ''+'' then (False, cs)
                  else (False, s)
      | [] \<Rightarrow> (False, []))"

definition parse_decimal :: "string \<Rightarrow> rat option" where
  "parse_decimal s =
     (let ip = takeWhile is_digit s;
          r1 = dropWhile is_digit s;
          has_point = (case r1 of c # cs \<Rightarrow> c = CHR ''.'' | [] \<Rightarrow> False);
          fp = (if has_point then takeWhile is_digit (tl r1) else []);
          r2 = (if has_point then dropWhile is_digit (tl r1) else r1)
      in if ip = [] \<and> fp = [] then None
         else let m = of_nat (digits_val (ip @ fp)) * pow10 (- int (length fp))
              in case r2 of
                   [] \<Rightarrow> Some m
                 | c # cs \<Rightarrow>
                     if c = CHR ''e'' \<or> c = CHR ''E''
                     then let (eneg, ds) = split_sign cs
                          in if ds \<noteq> [] \<and> list_all is_digit ds
                             then Some (m * pow10 (if eneg then - int (digits_val ds)
                                                   else int (digits_val ds)))
                             else None
                     else None)"

definition py_float :: "string \<Rightarrow> error + pyfloat" where
  "py_float s =
     (if \<not> underscores_ok (CHR 0x00) s then Inl (ValueError (Not_a_float s))
      else let (negative, body) = split_sign (float_strip (filter (\<lambda>c. c \<noteq> CHR ''_'') s))
           in if lower body = ''inf'' \<or> lower body = ''infinity'' then Inr (Infinity negative)
              else if lower body = ''nan'' then Inr NaN
              else case parse_decimal body of
                     None \<Rightarrow> Inl (ValueError (Not_a_float s))
                   | Some q \<Rightarrow> Inr (to_double negative q))"

subsubsection \<open>\<^verbatim>\<open>f"{f:.4f}"\<close>\<close>

text \<open>
  The value rounded to four decimals, ties to even, written with its sign, its integer
  part, a point and four digits; \<^verbatim>\<open>inf\<close>, \<^verbatim>\<open>-inf\<close> and \<^verbatim>\<open>nan\<close> for the rest.
\<close>

fun fmt4 :: "pyfloat \<Rightarrow> string" where
  "fmt4 NaN = ''nan''"
| "fmt4 (Infinity negative) = (if negative then ''-inf'' else ''inf'')"
| "fmt4 (Finite negative q) =
     (let r = nat (round_half_even (q * 10000))
      in (if negative then ''-'' else '''') @ show_nat (r div 10000) @ ''.''
           @ pad_left 4 (show_nat (r mod 10000)))"

subsubsection \<open>\<^verbatim>\<open>str(f)\<close>\<close>

text \<open>
  \<^verbatim>\<open>str\<close> of a float is its \<^verbatim>\<open>repr\<close>: the fewest significant digits, between 1
  and 17, whose correctly rounded decimal reads back as the same float, written in
  positional notation when the decimal point falls within the range -3 to 16 and in
  exponent notation otherwise.
\<close>

definition round_digits :: "rat \<Rightarrow> nat \<Rightarrow> nat \<times> int" where
  "round_digits q n =
     (let e = floor_log 10 q + 1 - int n
      in (nat (round_half_even (q / pow10 e)), e))"

definition reads_back :: "rat \<Rightarrow> nat \<Rightarrow> bool" where
  "reads_back q n =
     (let (c, e) = round_digits q n in to_double False (of_nat c * pow10 e) = Finite False q)"

definition shortest_digits :: "rat \<Rightarrow> string \<times> int" where
  "shortest_digits q =
     (let (c, e) =
            round_digits q
              (case find (reads_back q) [1, 2, 3, 4, 5, 6, 7, 8, 9, 10, 11, 12, 13, 14, 15, 16] of
                 None \<Rightarrow> 17
               | Some n \<Rightarrow> n);
          ds = show_nat c
      in (rev (dropWhile (\<lambda>d. d = CHR ''0'') (rev ds)), e + int (length ds)))"

fun float_repr :: "pyfloat \<Rightarrow> string" where
  "float_repr NaN = ''nan''"
| "float_repr (Infinity negative) = (if negative then ''-inf'' else ''inf'')"
| "float_repr (Finite negative q) =
     (if negative then ''-'' else '''') @
     (if q = 0 then ''0.0''
      else let (ds, decpt) = shortest_digits q
           in if - 4 < decpt \<and> decpt \<le> 16
              then if decpt \<le> 0 then ''0.'' @ replicate (nat (- decpt)) CHR ''0'' @ ds
                   else if int (length ds) \<le> decpt
                   then ds @ replicate (nat decpt - length ds) CHR ''0'' @ ''.0''
                   else take (nat decpt) ds @ ''.'' @ drop (nat decpt) ds
              else take 1 ds @ (if 1 < length ds then ''.'' @ drop 1 ds else '''') @ ''e''
                   @ (if decpt - 1 < 0 then ''-'' else ''+'')
                   @ pad_left 2 (show_nat (nat \<bar>decpt - 1\<bar>)))"

subsection \<open>\<^verbatim>\<open>format_cipcode\<close>\<close>

text \<open>
  The value of one cell of the \<^verbatim>\<open>CIPCODE\<close> column as \<^verbatim>\<open>pd.read_csv\<close> leaves it:
  nothing, an integer, a float or a text. \<^verbatim>\<open>pd.isna\<close> holds of nothing and of NaN.
\<close>

datatype pyval = PNone | PInt int | PFloat pyfloat | PStr string

definition isna :: "pyval \<Rightarrow> bool" where
  "isna val = (val = PNone \<or> val = PFloat NaN)"

fun py_str :: "pyval \<Rightarrow> string" where
  "py_str PNone = ''None''"
| "py_str (PInt i) = show_int i"
| "py_str (PFloat f) = float_repr f"
| "py_str (PStr s) = s"

text \<open>
  The \<^verbatim>\<open>try\<close> block: the text of the float with four decimals when \<^verbatim>\<open>float(s)\<close>
  succeeds, the text unchanged when it raises \<^verbatim>\<open>ValueError\<close> or
  \<^verbatim>\<open>TypeError\<close>; any other exception goes on.
\<close>

definition numeric_formatting :: "string \<Rightarrow> error + string" where
  "numeric_formatting s =
     (case py_float s of
        Inr f \<Rightarrow> Inr (fmt4 f)
      | Inl (ValueError why) \<Rightarrow> Inr s
      | Inl TypeError \<Rightarrow> Inr s
      | Inl e \<Rightarrow> Inl e)"

text \<open>
  \<^verbatim>\<open>left, *rest = s.split(".", 1)\<close> raises \<^verbatim>\<open>ValueError\<close> on an empty list.
\<close>

definition format_cipcode :: "pyval \<Rightarrow> error + string option" where
  "format_cipcode val =
     (if isna val then Inr None
      else let s = strip (py_str val)
           in if s = [] \<or> lower s = ''nan'' then Inr None
              else case numeric_formatting s of
                     Inl e \<Rightarrow> Inl e
                   | Inr s' \<Rightarrow>
                       (case split1 CHR ''.'' s' of
                          [] \<Rightarrow> Inl (ValueError Not_enough_values_to_unpack)
                        | left # rest \<Rightarrow>
                            (case rest of
                               right # _ \<Rightarrow>
                                 Inr (Some (zfill 2 left @ ''.'' @ take 4 (right @ ''0000'')))
                             | [] \<Rightarrow> Inr (Some (zfill 2 left)))))"

subsubsection \<open>The normalizer as the specification words it\<close>

text \<open>
  Split on the first decimal point; the left part zero-padded to 2 characters; a right
  part, if there is one, padded with zeros on the right and cut to exactly 4 characters.
\<close>

definition spec_canonical :: "string \<Rightarrow> string" where
  "spec_canonical s =
     (let left = takeWhile (\<lambda>c. c \<noteq> CHR ''.'') s;
          right = drop (Suc (length left)) s
      in if CHR ''.'' \<in> set s
         then zfill 2 left @ ''.'' @ take 4 right @ replicate (4 - length right) CHR ''0''
         else zfill 2 left)"

definition spec_reformat :: "string \<Rightarrow> string" where
  "spec_reformat s = (case py_float s of Inr f \<Rightarrow> fmt4 f | Inl e \<Rightarrow> s)"

text \<open>
  As written: missing for a missing, empty or \<^verbatim>\<open>nan\<close> input, and the canonical form
  of the reformatted text otherwise.
\<close>

definition spec_format_cipcode :: "pyval \<Rightarrow> string option" where
  "spec_format_cipcode val =
     (if isna val \<or> py_str val = [] \<or> py_str val = ''nan'' then None
      else Some (spec_canonical (spec_reformat (py_str val))))"

text \<open>
  With the text trimmed first and \<^verbatim>\<open>nan\<close> recognised in any case.
\<close>

definition spec_format_cipcode_trimmed :: "pyval \<Rightarrow> string option" where
  "spec_format_cipcode_trimmed val =
     (let s = strip (py_str val)
      in if isna val \<or> s = [] \<or> lower s = ''nan'' then None
         else Some (spec_canonical (spec_reformat s)))"

subsection \<open>Tables and files\<close>

text \<open>
  The columns the script reads, typed as the input layout gives them: identifiers are
  integers, the numeric columns hold an integer or nothing (on these
  \<^verbatim>\<open>pd.to_numeric(..., errors="coerce").astype("Int64")\<close> changes nothing), names and
  titles hold a text or nothing.
\<close>

record completion =
  UNITID :: int
  CIPCODE :: pyval
  MAJORNUM :: "int option"
  AWLEVEL :: "int option"
  CTOTALT :: "int option"

record directory =
  hd_UNITID :: int
  INSTNM :: "string option"

record taxonomy =
  CIPCode :: "string option"
  CIPTitle :: "string option"
  CIPFamily :: "string option"

record research_row =
  unitid :: int
  institution :: "string option"
  cip2 :: "string option"
  cip2_title :: "string option"
  cipcode :: "string option"
  cip6_title :: "string option"
  is_cip6 :: bool
  major_number :: "int option"
  award_level_code :: "int option"
  award_level_name :: "string option"
  degree_group :: "string option"
  award_count_total :: "int option"

text \<open>
  What \<^verbatim>\<open>pd.read_csv\<close> returns for a file, by the columns it holds. A table of
  identifiers is any other table: its column names and, for each column, a cell per row
  holding what \<^verbatim>\<open>pd.to_numeric(..., errors="coerce")\<close> makes of it: nothing where
  the coercion gives NaN, and otherwise a number, which is either not finite or is kept as
  the integer that \<^verbatim>\<open>astype(int)\<close> makes of it.
  The file system maps a path to the table stored there.
\<close>

datatype coerced = Int_value int | Non_finite

datatype csv =
    CompletionsCsv "completion list"
  | DirectoryCsv "directory list"
  | TaxonomyCsv "taxonomy list"
  | UnitidCsv "(string \<times> coerced option list) list"
  | ResearchCsv "research_row list"

type_synonym files = "string \<rightharpoonup> csv"

definition final_cols :: "string list" where
  "final_cols =
     [''unitid'', ''institution'', ''cip2'', ''cip2_title'', ''cipcode'', ''cip6_title'',
      ''is_cip6'', ''major_number'', ''award_level_code'', ''award_level_name'',
      ''degree_group'', ''award_count_total'']"

fun columns :: "csv \<Rightarrow> string list" where
  "columns (CompletionsCsv rows) = [''UNITID'', ''CIPCODE'', ''MAJORNUM'', ''AWLEVEL'', ''CTOTALT'']"
| "columns (DirectoryCsv rows) = [''UNITID'', ''INSTNM'']"
| "columns (TaxonomyCsv rows) = [''CIPCode'', ''CIPTitle'', ''CIPFamily'']"
| "columns (UnitidCsv cols) = map fst cols"
| "columns (ResearchCsv rows) = final_cols"

text \<open>The cells of an identifier column after \<^verbatim>\<open>pd.to_numeric(..., errors="coerce")\<close>.\<close>

fun coerced_column :: "csv \<Rightarrow> string \<Rightarrow> coerced option list" where
  "coerced_column (CompletionsCsv rows) col =
     (if col = ''UNITID'' then map (\<lambda>r. Some (Int_value (UNITID r))) rows else [])"
| "coerced_column (DirectoryCsv rows) col =
     (if col = ''UNITID'' then map (\<lambda>r. Some (Int_value (hd_UNITID r))) rows else [])"
| "coerced_column (TaxonomyCsv rows) col = []"
| "coerced_column (UnitidCsv cols) col =
     (case map_of cols col of None \<Rightarrow> [] | Some cells \<Rightarrow> cells)"
| "coerced_column (ResearchCsv rows) col =
     (if col = ''unitid'' then map (\<lambda>r. Some (Int_value (unitid r))) rows else [])"

subsection \<open>\<^verbatim>\<open>load_bigten_unitids\<close>\<close>

definition BIGTEN_UNITIDS :: "int list" where
  "BIGTEN_UNITIDS =
     [151351, 171100, 147767, 204796, 214777, 243780, 186380, 110662, 145637,
      153658, 163286, 170976, 174066, 181464, 209551, 123961, 236948, 240444]"

text \<open>\<^verbatim>\<open>.dropna()\<close> on a series: the cells that hold something.\<close>

definition dropna :: "'a option list \<Rightarrow> 'a list" where
  "dropna cells = concat (map (\<lambda>c. case c of None \<Rightarrow> [] | Some v \<Rightarrow> [v]) cells)"

text \<open>
  \<^verbatim>\<open>.astype(int)\<close> on numbers raises a \<^verbatim>\<open>ValueError\<close> when one of them is not
  finite.
\<close>

fun astype_int :: "coerced list \<Rightarrow> error + int list" where
  "astype_int [] = Inr []"
| "astype_int (Int_value i # cells) =
     (case astype_int cells of Inl e \<Rightarrow> Inl e | Inr ids \<Rightarrow> Inr (i # ids))"
| "astype_int (Non_finite # cells) = Inl (ValueError Cannot_convert_non_finite)"

definition load_bigten_unitids :: "files \<Rightarrow> string option \<Rightarrow> error + int list" where
  "load_bigten_unitids fs path =
     (case path of
        None \<Rightarrow> Inr BIGTEN_UNITIDS
      | Some p \<Rightarrow>
          (case fs p of
             None \<Rightarrow> Inr BIGTEN_UNITIDS
           | Some df_ids \<Rightarrow>
               if ''UNITID'' \<in> set (columns df_ids) \<or> ''unitid'' \<in> set (columns df_ids)
               then let col = (if ''UNITID'' \<in> set (columns df_ids) then ''UNITID'' else ''unitid'')
                    in case astype_int (dropna (coerced_column df_ids col)) of
                         Inl e \<Rightarrow> Inl e
                       | Inr unitids \<Rightarrow> Inr (if unitids \<noteq> [] then unitids else BIGTEN_UNITIDS)
               else Inl (ValueError (Missing_UNITID_column (columns df_ids)))))"

subsection \<open>The steps of \<^verbatim>\<open>build\<close>\<close>

text \<open>\<^verbatim>\<open>drop_duplicates()\<close> keeps the first of equal rows, in order.\<close>

definition drop_duplicates :: "'a list \<Rightarrow> 'a list" where
  "drop_duplicates rows = rev (remdups (rev rows))"

text \<open>
  \<^verbatim>\<open>left.merge(right, on=key, how="left")\<close>, the right table being given as pairs of
  a key and the value it brings: a left row is paired with each right row of its key,
  in the order of the right table, and a left row without a partner is kept alone.
  The right tables of the script hold no missing key.
\<close>

definition merge_left ::
  "('a \<Rightarrow> 'k option) \<Rightarrow> ('k \<times> 'v) list \<Rightarrow> 'a list \<Rightarrow> ('a \<times> 'v option) list" where
  "merge_left key right left =
     concat (map (\<lambda>l. case filter (\<lambda>(k, v). key l = Some k) right of
                          [] \<Rightarrow> [(l, None)]
                        | m # ms \<Rightarrow> map (\<lambda>(k, v). (l, Some v)) (m # ms)) left)"

text \<open>Lines 129 to 134: names from the directory, then the rows of the allow-list.\<close>

definition hd_names :: "directory list \<Rightarrow> (int \<times> string option) list" where
  "hd_names hd_rows = drop_duplicates (map (\<lambda>r. (hd_UNITID r, INSTNM r)) hd_rows)"

definition df_with_names ::
  "completion list \<Rightarrow> directory list \<Rightarrow> (completion \<times> string option) list" where
  "df_with_names df hd_rows =
     map (\<lambda>(r, n). (r, case n of None \<Rightarrow> None | Some name \<Rightarrow> name))
       (merge_left (\<lambda>r. Some (UNITID r)) (hd_names hd_rows) df)"

definition df_bigten ::
  "int list \<Rightarrow> (completion \<times> string option) list \<Rightarrow> (completion \<times> string option) list" where
  "df_bigten bigten_unitids rows = filter (\<lambda>(r, n). UNITID r \<in> set bigten_unitids) rows"

text \<open>The pattern \<^verbatim>\<open>\d{2}\.\d{4}\<close>.\<close>

definition cip6_pattern :: regex where
  "cip6_pattern = Seq (Rep 2 Digit) (Seq (Chr CHR ''.'') (Rep 4 Digit))"

text \<open>\<^verbatim>\<open>.str.split(".", n=1).str[0].str.zfill(2)\<close> on one cell.\<close>

definition cip2_of :: "string option \<Rightarrow> string option" where
  "cip2_of code =
     (case code of
        None \<Rightarrow> None
      | Some s \<Rightarrow> (case split1 CHR ''.'' s of [] \<Rightarrow> None | left # _ \<Rightarrow> Some (zfill 2 left)))"

text \<open>An exception raised for one row ends the whole column operation.\<close>

fun collect :: "(error + 'a) list \<Rightarrow> error + 'a list" where
  "collect [] = Inr []"
| "collect (x # xs) =
     (case x of
        Inl e \<Rightarrow> Inl e
      | Inr v \<Rightarrow> (case collect xs of Inl e \<Rightarrow> Inl e | Inr vs \<Rightarrow> Inr (v # vs)))"

text \<open>
  Lines 137 to 160: the six columns renamed, the code normalized, the 2-digit category
  derived. The columns that the later steps add are empty for now.
\<close>

definition research :: "(completion \<times> string option) list \<Rightarrow> error + research_row list" where
  "research rows =
     collect (map (\<lambda>(r, n).
        case format_cipcode (CIPCODE r) of
          Inl e \<Rightarrow> Inl e
        | Inr code \<Rightarrow>
            Inr \<lparr>unitid = UNITID r, institution = n, cip2 = cip2_of code, cip2_title = None,
                 cipcode = code, cip6_title = None, is_cip6 = False,
                 major_number = MAJORNUM r, award_level_code = AWLEVEL r,
                 award_level_name = None, degree_group = None,
                 award_count_total = CTOTALT r\<rparr>) rows)"

text \<open>
  Lines 163 to 185: the taxonomy with its code unwrapped, and the two lookups. A row of
  \<open>cip_lookup\<close> is the code, the title, the family and the 2-digit category.
\<close>

definition cip_lookup ::
  "taxonomy list \<Rightarrow> (string option \<times> string option \<times> string option \<times> string option) list" where
  "cip_lookup cip_raw =
     map (\<lambda>(code, r). (code, map_option strip (CIPTitle r), map_option strip (CIPFamily r),
                         cip2_of code))
       (zip (clean_excel_text_wrapper (map CIPCode cip_raw)) cip_raw)"

definition dropna_rows :: "('a option \<times> 'b option) list \<Rightarrow> ('a \<times> 'b) list" where
  "dropna_rows rows =
     concat (map (\<lambda>(a, b). case a of None \<Rightarrow> [] | Some x \<Rightarrow> (case b of None \<Rightarrow> [] | Some y \<Rightarrow> [(x, y)]))
               rows)"

text \<open>
  \<^verbatim>\<open>sort_values("cip2")\<close> orders the rows by the category; rows of one category are
  kept here in the order they had.
\<close>

definition cip2_lookup :: "taxonomy list \<Rightarrow> (string \<times> string) list" where
  "cip2_lookup cip_raw =
     sort_key fst
       (drop_duplicates
          (dropna_rows (map (\<lambda>(code, title, family, c2). (c2, family)) (cip_lookup cip_raw))))"

definition cip6_lookup :: "taxonomy list \<Rightarrow> (string \<times> string) list" where
  "cip6_lookup cip_raw =
     filter (\<lambda>(code, title). fullmatch cip6_pattern code)
       (drop_duplicates
          (dropna_rows (map (\<lambda>(code, title, family, c2). (code, title)) (cip_lookup cip_raw))))"

text \<open>Lines 188 to 191: the two joins.\<close>

definition join_titles :: "taxonomy list \<Rightarrow> research_row list \<Rightarrow> research_row list" where
  "join_titles cip_raw rows =
     map (\<lambda>(row, t). row\<lparr>cip6_title := t\<rparr>)
       (merge_left cipcode (cip6_lookup cip_raw)
          (map (\<lambda>(row, t). row\<lparr>cip2_title := t\<rparr>)
             (merge_left cip2 (cip2_lookup cip_raw) rows)))"

text \<open>Lines 194 to 214, each of which works on the rows one by one.\<close>

definition fillna :: "'a \<Rightarrow> 'a option \<Rightarrow> 'a option" where
  "fillna v cell = (case cell of None \<Rightarrow> Some v | Some x \<Rightarrow> Some x)"

definition award_level_labels :: "int \<rightharpoonup> string" where
  "award_level_labels =
     [5 \<mapsto> ''Bachelors'', 7 \<mapsto> ''Masters'', 17 \<mapsto> ''Doctoral (Research/Scholarship)'']"

definition degree_group_of :: "int option \<Rightarrow> string option" where
  "degree_group_of code =
     (let g = None;
          g = (if code = Some 5 then Some ''Bachelors'' else g);
          g = (if code = Some 7 \<or> code = Some 17 then Some ''Graduate'' else g)
      in g)"

definition str_fullmatch :: "regex \<Rightarrow> string option \<Rightarrow> bool" where
  "str_fullmatch r cell = (case cell of None \<Rightarrow> False | Some s \<Rightarrow> fullmatch r s)"

definition label_row :: "research_row \<Rightarrow> research_row" where
  "label_row row =
     row\<lparr>cip2_title := fillna ''99 - Unclassified / Not in CIP taxonomy'' (cip2_title row),
         award_level_name := Option.bind (award_level_code row) award_level_labels,
         degree_group := degree_group_of (award_level_code row),
         is_cip6 := str_fullmatch cip6_pattern (cipcode row),
         cip6_title := fillna ''Not a CIP6 program (aggregate / unclassified)'' (cip6_title row)\<rparr>"

definition research_final :: "taxonomy list \<Rightarrow> research_row list \<Rightarrow> research_row list" where
  "research_final cip_raw rows = map label_row (join_titles cip_raw rows)"

text \<open>Lines 129 to 231 on tables of the right kinds, with the allow-list loaded.\<close>

definition transform ::
  "completion list \<Rightarrow> directory list \<Rightarrow> taxonomy list \<Rightarrow> int list \<Rightarrow> error + research_row list" where
  "transform df hd_rows cip_raw bigten_unitids =
     (case research (df_bigten bigten_unitids (df_with_names df hd_rows)) of
        Inl e \<Rightarrow> Inl e
      | Inr rows \<Rightarrow> Inr (research_final cip_raw rows))"

text \<open>Lines 233 to 247: the three guardrails, in their order.\<close>

definition guardrails :: "research_row list \<Rightarrow> error + unit" where
  "guardrails rows =
     (let n_inst = length (remdups (map unitid rows))
      in if n_inst \<noteq> 18 then Inl (ValueError (Expected_18_institutions n_inst))
         else let missing_cip2_titles = length (filter (\<lambda>r. cip2_title r = None) rows)
              in if missing_cip2_titles \<noteq> 0
                 then Inl (ValueError (Missing_cip2_title missing_cip2_titles))
                 else let missing_cip6_for_true =
                            length (filter (\<lambda>r. cip6_title r = None) (filter is_cip6 rows))
                      in if missing_cip6_for_true \<noteq> 0
                         then Inl (ValueError (Missing_cip6_title missing_cip6_for_true))
                         else Inr ())"

subsection \<open>\<^verbatim>\<open>build\<close>\<close>

record args =
  completions_path :: string
  hd_path :: string
  cip_path :: string
  bigten_unitids_path :: "string option"
  out_path :: string

text \<open>
  \<open>build\<close> returns the path it wrote, or the exception, together with the file system
  it leaves. Reading a path that holds no file raises \<^verbatim>\<open>FileNotFoundError\<close>, and
  selecting columns that a table lacks raises \<^verbatim>\<open>KeyError\<close>: at line 129 for the
  directory, at line 130 for a completions table without \<^verbatim>\<open>UNITID\<close>, at line 138
  for its other columns, at line 163 for the taxonomy.
\<close>

definition build :: "args \<Rightarrow> files \<Rightarrow> (error + string) \<times> files" where
  "build a fs =
     (case fs (completions_path a) of
        None \<Rightarrow> (Inl (FileNotFoundError (completions_path a)), fs)
      | Some df \<Rightarrow>
     (case fs (hd_path a) of
        None \<Rightarrow> (Inl (FileNotFoundError (hd_path a)), fs)
      | Some hd_df \<Rightarrow>
     (case fs (cip_path a) of
        None \<Rightarrow> (Inl (FileNotFoundError (cip_path a)), fs)
      | Some cip_raw \<Rightarrow>
     (case hd_df of
        DirectoryCsv hd_rows \<Rightarrow>
          if ''UNITID'' \<notin> set (columns df) then (Inl KeyError, fs)
          else
     (case load_bigten_unitids fs (bigten_unitids_path a) of
        Inl e \<Rightarrow> (Inl e, fs)
      | Inr bigten_unitids \<Rightarrow>
     (case df of
        CompletionsCsv df_rows \<Rightarrow>
     (case research (df_bigten bigten_unitids (df_with_names df_rows hd_rows)) of
        Inl e \<Rightarrow> (Inl e, fs)
      | Inr rows \<Rightarrow>
     (case cip_raw of
        TaxonomyCsv cip_rows \<Rightarrow>
          (case guardrails (research_final cip_rows rows) of
             Inl e \<Rightarrow> (Inl e, fs)
           | Inr ok \<Rightarrow>
               (Inr (out_path a), fs(out_path a \<mapsto> ResearchCsv (research_final cip_rows rows))))
      | _ \<Rightarrow> (Inl KeyError, fs)))
      | _ \<Rightarrow> (Inl KeyError, fs)))
      | _ \<Rightarrow> (Inl KeyError, fs)))))"

subsection \<open>Two runs\<close>

text \<open>
  The scenario of the specification: one completions row of Indiana University with the
  float 3.0104 as its code (the binary64 number nearest to 30104 / 10000), its directory
  row, and the taxonomy row of that code, whose code is written \<^verbatim>\<open>="03.0104"\<close>.
  No allow-list file is stored, so the embedded list is in force.
\<close>

definition float_3_0104 :: pyfloat where
  "float_3_0104 = to_double False (30104 / 10000)"

definition scenario_completions :: "completion list" where
  "scenario_completions =
     [\<lparr>UNITID = 151351, CIPCODE = PFloat float_3_0104,
       MAJORNUM = Some 1, AWLEVEL = Some 5, CTOTALT = Some 12\<rparr>]"

definition scenario_directory :: "directory list" where
  "scenario_directory = [\<lparr>hd_UNITID = 151351, INSTNM = Some ''Indiana University-Bloomington''\<rparr>]"

definition wrapped_03_0104 :: string where
  "wrapped_03_0104 = ''='' @ [CHR 0x22] @ ''03.0104'' @ [CHR 0x22]"

definition scenario_taxonomy :: "taxonomy list" where
  "scenario_taxonomy =
     [\<lparr>CIPCode = Some wrapped_03_0104,
       CIPTitle = Some ''Computer and Information Sciences, General.'',
       CIPFamily = Some ''Computer and Information Sciences''\<rparr>]"

definition scenario_args :: args where
  "scenario_args =
     \<lparr>completions_path = ''C2024_A.csv'', hd_path = ''HD2024.csv'',
      cip_path = ''CIPCode2020.csv'', bigten_unitids_path = Some ''bigten_unitids_named.csv'',
      out_path = ''research_bigten_completions_2024.csv''\<rparr>"

definition scenario_files :: files where
  "scenario_files =
     [''C2024_A.csv'' \<mapsto> CompletionsCsv scenario_completions,
      ''HD2024.csv'' \<mapsto> DirectoryCsv scenario_directory,
      ''CIPCode2020.csv'' \<mapsto> TaxonomyCsv scenario_taxonomy]"

definition scenario_row :: research_row where
  "scenario_row =
     \<lparr>unitid = 151351, institution = Some ''Indiana University-Bloomington'',
      cip2 = Some ''03'', cip2_title = Some ''Computer and Information Sciences'',
      cipcode = Some ''03.0104'',
      cip6_title = Some ''Computer and Information Sciences, General.'', is_cip6 = True,
      major_number = Some 1, award_level_code = Some 5, award_level_name = Some ''Bachelors'',
      degree_group = Some ''Bachelors'', award_count_total = Some 12\<rparr>"

text \<open>
  The same with a row for each of the other seventeen institutions of the embedded list:
  one with the integer code 99, the others without a code.
\<close>

definition eighteen_completions :: "completion list" where
  "eighteen_completions =
     scenario_completions
     @ [\<lparr>UNITID = 171100, CIPCODE = PInt 99, MAJORNUM = Some 1, AWLEVEL = Some 7,
         CTOTALT = Some 3\<rparr>]
     @ map (\<lambda>u. \<lparr>UNITID = u, CIPCODE = PNone, MAJORNUM = Some 2, AWLEVEL = Some 17,
                  CTOTALT = None\<rparr>) (drop 2 BIGTEN_UNITIDS)"

definition eighteen_files :: files where
  "eighteen_files = scenario_files(''C2024_A.csv'' \<mapsto> CompletionsCsv eighteen_completions)"

text \<open>
  Two tables that no run of the script produces: the row of the scenario repeated for the
  eighteen institutions, without its 2-digit title and without its 6-digit title.
\<close>

definition rows_without_cip2_title :: "research_row list" where
  "rows_without_cip2_title =
     map (\<lambda>u. scenario_row\<lparr>unitid := u, cip2_title := None\<rparr>) BIGTEN_UNITIDS"

definition rows_without_cip6_title :: "research_row list" where
  "rows_without_cip6_title =
     map (\<lambda>u. scenario_row\<lparr>unitid := u, cip6_title := None\<rparr>) BIGTEN_UNITIDS"

text \<open>A table whose only column is named \<^verbatim>\<open>Unitid\<close>, stored as the allow-list.\<close>

definition miscased_files :: files where
  "miscased_files =
     scenario_files(''bigten_unitids_named.csv'' \<mapsto> UnitidCsv [(''Unitid'', [Some (Int_value 151351)])])"

section \<open>Properties\<close>

subsection \<open>The allow-list loader\<close>

lemma dropna_eq_Nil: "dropna cells = [] \<longleftrightarrow> (\<forall>c\<in>set cells. c = None)"
  by (induction cells) (auto simp: dropna_def split: option.splits)

text \<open>
  C8. \<^verbatim>\<open>load_bigten_unitids\<close> returns the embedded list of 18 identifiers, as it is,
  when no path is given, when the path holds no file, and when every cell of the
  identifier column is discarded by the coercion; it never returns an empty list.
\<close>

theorem load_bigten_unitids_default:
  "length BIGTEN_UNITIDS = 18
   \<and> load_bigten_unitids fs None = Inr BIGTEN_UNITIDS
   \<and> (fs p = None \<longrightarrow> load_bigten_unitids fs (Some p) = Inr BIGTEN_UNITIDS)
   \<and> (fs p' = Some df_ids \<and> col \<in> set (columns df_ids)
        \<and> col = (if ''UNITID'' \<in> set (columns df_ids) then ''UNITID'' else ''unitid'')
        \<and> (\<forall>cell\<in>set (coerced_column df_ids col). cell = None)
      \<longrightarrow> load_bigten_unitids fs (Some p') = Inr BIGTEN_UNITIDS)
   \<and> load_bigten_unitids fs path \<noteq> Inr []"
proof -
  have len: "length BIGTEN_UNITIDS = 18" and ne: "BIGTEN_UNITIDS \<noteq> []"
    by (simp_all add: BIGTEN_UNITIDS_def)
  have none: "load_bigten_unitids fs None = Inr BIGTEN_UNITIDS"
    by (simp add: load_bigten_unitids_def)
  have absent: "fs p = None \<longrightarrow> load_bigten_unitids fs (Some p) = Inr BIGTEN_UNITIDS"
    by (simp add: load_bigten_unitids_def)
  have empty: "fs p' = Some df_ids \<and> col \<in> set (columns df_ids)
        \<and> col = (if ''UNITID'' \<in> set (columns df_ids) then ''UNITID'' else ''unitid'')
        \<and> (\<forall>cell\<in>set (coerced_column df_ids col). cell = None)
      \<longrightarrow> load_bigten_unitids fs (Some p') = Inr BIGTEN_UNITIDS"
  proof (intro impI, elim conjE)
    assume stored: "fs p' = Some df_ids" and present: "col \<in> set (columns df_ids)"
      and col: "col = (if ''UNITID'' \<in> set (columns df_ids) then ''UNITID'' else ''unitid'')"
      and discarded: "\<forall>cell\<in>set (coerced_column df_ids col). cell = None"
    from discarded have "dropna (coerced_column df_ids col) = []"
      by (simp add: dropna_eq_Nil)
    with stored present col show "load_bigten_unitids fs (Some p') = Inr BIGTEN_UNITIDS"
      by (auto simp: load_bigten_unitids_def Let_def split: if_splits)
  qed
  have never: "load_bigten_unitids fs path \<noteq> Inr []"
    using ne by (auto simp: load_bigten_unitids_def Let_def split: option.splits sum.splits)
  from len none absent empty never show ?thesis by blast
qed

theorem load_bigten_unitids_default_witness:
  "[''ids.csv'' \<mapsto> UnitidCsv [(''name'', [None, None]), (''unitid'', [None, None])]] ''none.csv'' = None
   \<and> load_bigten_unitids
        [''ids.csv'' \<mapsto> UnitidCsv [(''name'', [None, None]), (''unitid'', [None, None])]]
        (Some ''none.csv'') = Inr BIGTEN_UNITIDS
   \<and> ''unitid'' \<in> set (columns (UnitidCsv [(''name'', [None, None]), (''unitid'', [None, None])]))
   \<and> coerced_column (UnitidCsv [(''name'', [None, None]), (''unitid'', [None, None])]) ''unitid''
       = [None, None]
   \<and> load_bigten_unitids
        [''ids.csv'' \<mapsto> UnitidCsv [(''name'', [None, None]), (''unitid'', [None, None])]]
        (Some ''ids.csv'') = Inr BIGTEN_UNITIDS"
  using load_bigten_unitids_default
    [of "[''ids.csv'' \<mapsto> UnitidCsv [(''name'', [None, None]), (''unitid'', [None, None])]]"
        "''none.csv''" "''ids.csv''"
        "UnitidCsv [(''name'', [None, None]), (''unitid'', [None, None])]" "''unitid''" None]
  by simp

text \<open>
  C9. When the allow-list file exists and has neither a column \<^verbatim>\<open>UNITID\<close> nor a
  column \<^verbatim>\<open>unitid\<close>, the loader raises the schema error; \<open>build\<close> then ends with an
  exception and leaves the file system as it was, and the exception is the schema error
  when the three input tables are read and the first two have their columns.
\<close>

theorem load_bigten_unitids_schema_error:
  assumes "fs p = Some df_ids"
    and "''UNITID'' \<notin> set (columns df_ids)"
    and "''unitid'' \<notin> set (columns df_ids)"
  shows "load_bigten_unitids fs (Some p) = Inl (ValueError (Missing_UNITID_column (columns df_ids)))
    \<and> (bigten_unitids_path a = Some p \<longrightarrow> (\<exists>e. build a fs = (Inl e, fs)))
    \<and> (bigten_unitids_path a = Some p
        \<and> fs (completions_path a) = Some (CompletionsCsv df)
        \<and> fs (hd_path a) = Some (DirectoryCsv hd_rows)
        \<and> fs (cip_path a) = Some cip_raw
      \<longrightarrow> build a fs = (Inl (ValueError (Missing_UNITID_column (columns df_ids))), fs))"
proof -
  have load: "load_bigten_unitids fs (Some p) = Inl (ValueError (Missing_UNITID_column (columns df_ids)))"
    using assms by (simp add: load_bigten_unitids_def)
  have abort: "\<exists>e. build a fs = (Inl e, fs)" if "bigten_unitids_path a = Some p"
    using load that
    by (auto simp: build_def split: option.splits csv.splits sum.splits)
  have schema: "build a fs = (Inl (ValueError (Missing_UNITID_column (columns df_ids))), fs)"
    if "bigten_unitids_path a = Some p" "fs (completions_path a) = Some (CompletionsCsv df)"
      "fs (hd_path a) = Some (DirectoryCsv hd_rows)" "fs (cip_path a) = Some cip_raw"
    using load that by (simp add: build_def)
  from load abort schema show ?thesis by blast
qed

theorem load_bigten_unitids_schema_error_witness:
  "miscased_files ''bigten_unitids_named.csv'' = Some (UnitidCsv [(''Unitid'', [Some (Int_value 151351)])])
   \<and> ''UNITID'' \<notin> set (columns (UnitidCsv [(''Unitid'', [Some (Int_value 151351)])]))
   \<and> ''unitid'' \<notin> set (columns (UnitidCsv [(''Unitid'', [Some (Int_value 151351)])]))
   \<and> bigten_unitids_path scenario_args = Some ''bigten_unitids_named.csv''
   \<and> miscased_files (completions_path scenario_args) = Some (CompletionsCsv scenario_completions)
   \<and> miscased_files (hd_path scenario_args) = Some (DirectoryCsv scenario_directory)
   \<and> miscased_files (cip_path scenario_args) = Some (TaxonomyCsv scenario_taxonomy)
   \<and> load_bigten_unitids miscased_files (Some ''bigten_unitids_named.csv'')
       = Inl (ValueError (Missing_UNITID_column [''Unitid'']))
   \<and> build scenario_args miscased_files
       = (Inl (ValueError (Missing_UNITID_column [''Unitid''])), miscased_files)"
proof -
  have files:
    "miscased_files ''bigten_unitids_named.csv'' = Some (UnitidCsv [(''Unitid'', [Some (Int_value 151351)])])"
    "miscased_files (completions_path scenario_args) = Some (CompletionsCsv scenario_completions)"
    "miscased_files (hd_path scenario_args) = Some (DirectoryCsv scenario_directory)"
    "miscased_files (cip_path scenario_args) = Some (TaxonomyCsv scenario_taxonomy)"
    "bigten_unitids_path scenario_args = Some ''bigten_unitids_named.csv''"
    by (simp_all add: miscased_files_def scenario_files_def scenario_args_def)
  have cols:
    "''UNITID'' \<notin> set (columns (UnitidCsv [(''Unitid'', [Some (Int_value 151351)])]))"
    "''unitid'' \<notin> set (columns (UnitidCsv [(''Unitid'', [Some (Int_value 151351)])]))"
    by simp_all
  from load_bigten_unitids_schema_error
         [of miscased_files "''bigten_unitids_named.csv''"
            "UnitidCsv [(''Unitid'', [Some (Int_value 151351)])]" scenario_args scenario_completions
            scenario_directory "TaxonomyCsv scenario_taxonomy", OF files(1) cols]
       files cols
  show ?thesis by simp
qed

subsection \<open>Evaluating floats\<close>

lemma floor_numeral_div: "\<lfloor>(numeral a / numeral b :: rat)\<rfloor> = numeral a div numeral b"
  by (metis floor_divide_of_int_eq of_int_numeral)

lemma ceiling_numeral_div: "\<lceil>(numeral a / numeral b :: rat)\<rceil> = - (- numeral a div numeral b)"
  by (metis ceiling_def floor_divide_of_int_eq minus_divide_left of_int_minus of_int_numeral)

lemmas float_eval =
  to_double_def floor_log_def num_digits.simps round_half_even_def pow2_def pow10_def Let_def
  floor_numeral_div ceiling_numeral_div

lemma char_of_eval:
  "char_of (numeral k :: nat) =
     Char (odd (numeral k :: nat)) (odd (numeral k div 2 :: nat)) (odd (numeral k div 4 :: nat))
       (odd (numeral k div 8 :: nat)) (odd (numeral k div 16 :: nat))
       (odd (numeral k div 32 :: nat)) (odd (numeral k div 64 :: nat))
       (odd (numeral k div 128 :: nat))"
  by (simp add: char_of_def bit_iff_odd)

lemma replicate_numeral_Cons: "replicate (numeral k) x = x # replicate (pred_numeral k) x"
  by (simp add: numeral_eq_Suc)

lemmas text_eval =
  strip_def is_space_def lower_def lower_char_def is_digit_def zfill_def split1_def
  char_of_eval replicate_numeral_Cons

lemmas parse_eval =
  py_float_def float_strip_def is_float_space_def split_sign_def parse_decimal_def
  digits_val_def digit_val_def

lemma float_3_0104_value: "float_3_0104 = Finite False (6778818159118071 / 2251799813685248)"
  by (simp add: float_3_0104_def float_eval)

lemma float_3_0104_repr: "float_repr float_3_0104 = ''3.0104''"
  by (simp add: float_3_0104_value shortest_digits_def reads_back_def round_digits_def
        float_eval show_nat.simps)

lemma py_float_3_0104: "py_float ''3.0104'' = Inr float_3_0104"
  by (simp add: float_3_0104_value parse_eval text_eval float_eval)

lemma py_float_03_0104: "py_float ''03.0104'' = Inr float_3_0104"
  by (simp add: float_3_0104_value parse_eval text_eval float_eval)

lemma fmt4_3_0104: "fmt4 float_3_0104 = ''3.0104''"
  by (simp add: float_3_0104_value float_eval show_nat.simps pad_left_def)

lemma float_3_0104_not_NaN: "float_3_0104 \<noteq> NaN"
  by (simp add: float_3_0104_value)

lemma cipcode_of_float_3_0104: "format_cipcode (PFloat float_3_0104) = Inr (Some ''03.0104'')"
  by (simp add: format_cipcode_def isna_def numeric_formatting_def float_3_0104_not_NaN
        float_3_0104_repr py_float_3_0104 fmt4_3_0104 text_eval)

lemma cipcode_of_text_03_0104: "format_cipcode (PStr ''03.0104'') = Inr (Some ''03.0104'')"
  by (simp add: format_cipcode_def isna_def numeric_formatting_def py_float_03_0104 fmt4_3_0104
        text_eval)

subsection \<open>The code normalizer\<close>

lemma partition_at_None_iff: "partition_at c s = None \<longleftrightarrow> c \<notin> set s"
  by (induction s) (auto split: option.splits)

lemma partition_at_Some:
  "c \<in> set s \<Longrightarrow>
   partition_at c s = Some (takeWhile (\<lambda>x. x \<noteq> c) s, tl (dropWhile (\<lambda>x. x \<noteq> c) s))"
  by (induction s) (auto split: option.splits simp: partition_at_None_iff)

lemma split1_eq:
  "split1 c s =
     (if c \<in> set s then [takeWhile (\<lambda>x. x \<noteq> c) s, tl (dropWhile (\<lambda>x. x \<noteq> c) s)] else [s])"
  by (simp add: split1_def partition_at_Some partition_at_None_iff[THEN iffD2])

lemma split1_not_Nil: "split1 c s \<noteq> []"
  by (simp add: split1_eq)

lemma py_float_raises_ValueError: "py_float s = Inl e \<Longrightarrow> \<exists>why. e = ValueError why"
  by (auto simp: py_float_def Let_def split: if_splits prod.splits option.splits)

lemma numeric_formatting_eq: "numeric_formatting s = Inr (spec_reformat s)"
proof (cases "py_float s")
  case (Inl e)
  then obtain why where "e = ValueError why"
    using py_float_raises_ValueError by blast
  with Inl show ?thesis
    by (simp add: numeric_formatting_def spec_reformat_def)
next
  case (Inr f)
  then show ?thesis
    by (simp add: numeric_formatting_def spec_reformat_def)
qed

lemma take_zeros: "take (4 - n) ''0000'' = replicate (4 - n) CHR ''0''"
proof -
  have "''0000'' = replicate 4 CHR ''0''"
    by (simp add: numeral_eq_Suc)
  then show ?thesis
    by (simp only: take_replicate) simp
qed

lemma take4_pad: "take 4 (r @ ''0000'') = take 4 r @ replicate (4 - length r) CHR ''0''"
  using take_zeros[of "length r"] by (simp only: take_append) 

lemma right_part: "drop (Suc (length (takeWhile P s))) s = tl (dropWhile P s)"
  by (simp add: dropWhile_eq_drop drop_Suc tl_drop)

lemma unpack_eq:
  "(case split1 CHR ''.'' s of
      [] \<Rightarrow> Inl (ValueError Not_enough_values_to_unpack)
    | left # rest \<Rightarrow>
        (case rest of
           right # _ \<Rightarrow> Inr (Some (zfill 2 left @ ''.'' @ take 4 (right @ ''0000'')))
         | [] \<Rightarrow> Inr (Some (zfill 2 left))))
   = Inr (Some (spec_canonical s))"
proof (cases "CHR ''.'' \<in> set s")
  case True
  define left where "left = takeWhile (\<lambda>c. c \<noteq> CHR ''.'') s"
  define right where "right = tl (dropWhile (\<lambda>c. c \<noteq> CHR ''.'') s)"
  have split: "split1 CHR ''.'' s = [left, right]"
    using True by (simp add: split1_eq left_def right_def)
  have right: "drop (Suc (length left)) s = right"
    unfolding left_def right_def by (rule right_part)
  have "spec_canonical s =
          zfill 2 left @ ''.'' @ take 4 (drop (Suc (length left)) s)
            @ replicate (4 - length (drop (Suc (length left)) s)) CHR ''0''"
    using True by (simp add: spec_canonical_def Let_def left_def[symmetric])
  also have "\<dots> = zfill 2 left @ ''.'' @ take 4 right @ replicate (4 - length right) CHR ''0''"
    by (simp only: right)
  also have "\<dots> = zfill 2 left @ ''.'' @ take 4 (right @ ''0000'')"
    by (simp only: take4_pad)
  finally show ?thesis
    by (simp only: split list.case)
next
  case False
  then have whole: "takeWhile (\<lambda>c. c \<noteq> CHR ''.'') s = s"
    by (auto simp: takeWhile_eq_all_conv)
  from False show ?thesis
    by (simp add: split1_eq spec_canonical_def Let_def whole)
qed

lemma spec_canonical_no_point: "CHR ''.'' \<notin> set s \<Longrightarrow> spec_canonical s = zfill 2 s"
proof -
  assume no_point: "CHR ''.'' \<notin> set s"
  then have whole: "takeWhile (\<lambda>c. c \<noteq> CHR ''.'') s = s"
    by (auto simp: takeWhile_eq_all_conv)
  from no_point show ?thesis
    by (simp add: spec_canonical_def Let_def whole)
qed

lemma format_cipcode_eq: "format_cipcode val = Inr (spec_format_cipcode_trimmed val)"
  by (simp add: format_cipcode_def spec_format_cipcode_trimmed_def Let_def numeric_formatting_eq
        unpack_eq)

text \<open>
  C3, as written. The claim does not trim the text, looks for \<^verbatim>\<open>nan\<close> in that case
  only, and so differs from the code: for the text \<^verbatim>\<open>" x"\<close> the code returns
  \<^verbatim>\<open>"0x"\<close>, where the claim keeps the blank and gives \<^verbatim>\<open>" x"\<close>.
\<close>

theorem format_cipcode_as_written_counterexample:
  "format_cipcode (PStr '' x'') = Inr (Some ''0x'')
   \<and> spec_format_cipcode (PStr '' x'') = Some '' x''
   \<and> format_cipcode (PStr '' x'') \<noteq> Inr (spec_format_cipcode (PStr '' x''))"
proof -
  have not_float: "py_float '' x'' = Inl (ValueError (Not_a_float '' x''))"
    and not_float': "py_float ''x'' = Inl (ValueError (Not_a_float ''x''))"
    by (simp_all add: parse_eval text_eval)
  have code: "format_cipcode (PStr '' x'') = Inr (Some ''0x'')"
    by (simp add: format_cipcode_def isna_def numeric_formatting_def not_float' text_eval)
  have spec: "spec_format_cipcode (PStr '' x'') = Some '' x''"
    by (simp add: spec_format_cipcode_def isna_def spec_reformat_def spec_canonical_def
          not_float text_eval)
  from code spec show ?thesis by simp
qed

text \<open>
  C3, amended. For every input \<open>format_cipcode\<close> returns without raising, and what it
  returns is: nothing when the input is missing or its text, trimmed of white space, is
  empty or is \<^verbatim>\<open>nan\<close> in any case; otherwise the trimmed text, rewritten with four
  decimals when it parses as a float, split at its first point, with the left part
  zero-filled to 2 characters (after a leading sign) and the right part, if any, padded
  with zeros and cut to 4 characters. The text \<^verbatim>\<open>03.0104\<close> and the float 3.0104 both
  give \<^verbatim>\<open>03.0104\<close>.
\<close>

theorem format_cipcode_spec:
  "format_cipcode val = Inr (spec_format_cipcode_trimmed val)
   \<and> format_cipcode (PStr ''03.0104'') = Inr (Some ''03.0104'')
   \<and> format_cipcode (PFloat float_3_0104) = Inr (Some ''03.0104'')"
  using format_cipcode_eq cipcode_of_text_03_0104 cipcode_of_float_3_0104 by simp

theorem format_cipcode_spec_witness:
  "format_cipcode (PStr '' 5a.12 '') = Inr (Some ''5a.1200'')"
proof -
  have not_float: "py_float ''5a.12'' = Inl (ValueError (Not_a_float ''5a.12''))"
    by (simp add: parse_eval text_eval)
  have "spec_format_cipcode_trimmed (PStr '' 5a.12 '') = Some ''5a.1200''"
    by (simp add: spec_format_cipcode_trimmed_def isna_def spec_reformat_def spec_canonical_def
          not_float text_eval)
  with format_cipcode_spec [of "PStr '' 5a.12 ''"] show ?thesis by simp
qed

text \<open>
  C7. \<open>format_cipcode\<close> raises on no input. A text that is not missing gives a text;
  when it does not parse as a float and holds no point, that text is the trimmed input
  zero-filled to 2 characters.
\<close>

theorem format_cipcode_total:
  "(\<exists>r. format_cipcode val = Inr r)
   \<and> (\<not> isna val \<and> strip (py_str val) \<noteq> [] \<and> lower (strip (py_str val)) \<noteq> ''nan''
      \<longrightarrow> (\<exists>t. format_cipcode val = Inr (Some t)))
   \<and> (\<not> isna val \<and> strip (py_str val) \<noteq> [] \<and> lower (strip (py_str val)) \<noteq> ''nan''
        \<and> py_float (strip (py_str val)) = Inl e \<and> CHR ''.'' \<notin> set (strip (py_str val))
      \<longrightarrow> format_cipcode val = Inr (Some (zfill 2 (strip (py_str val)))))"
proof -
  have total: "\<exists>r. format_cipcode val = Inr r"
    by (simp add: format_cipcode_eq)
  have some_text: "\<exists>t. format_cipcode val = Inr (Some t)"
    if "\<not> isna val" "strip (py_str val) \<noteq> []" "lower (strip (py_str val)) \<noteq> ''nan''"
    using that by (simp add: format_cipcode_eq spec_format_cipcode_trimmed_def Let_def)
  have fallback: "format_cipcode val = Inr (Some (zfill 2 (strip (py_str val))))"
    if "\<not> isna val" "strip (py_str val) \<noteq> []" "lower (strip (py_str val)) \<noteq> ''nan''"
      "py_float (strip (py_str val)) = Inl e" "CHR ''.'' \<notin> set (strip (py_str val))"
    using that
    by (simp add: format_cipcode_eq spec_format_cipcode_trimmed_def Let_def spec_reformat_def
          spec_canonical_no_point)
  from total some_text fallback show ?thesis by blast
qed

theorem format_cipcode_total_witness:
  "\<not> isna (PStr ''N/A'') \<and> strip (py_str (PStr ''N/A'')) = ''N/A'' \<and> lower ''N/A'' = ''n/a''
   \<and> py_float ''N/A'' = Inl (ValueError (Not_a_float ''N/A''))
   \<and> CHR ''.'' \<notin> set ''N/A''
   \<and> format_cipcode (PStr ''N/A'') = Inr (Some ''N/A'')"
proof -
  have facts: "\<not> isna (PStr ''N/A'')" "strip (py_str (PStr ''N/A'')) = ''N/A''"
    "lower ''N/A'' = ''n/a''" "py_float ''N/A'' = Inl (ValueError (Not_a_float ''N/A''))"
    "CHR ''.'' \<notin> set ''N/A''"
    by (simp_all add: isna_def parse_eval text_eval)
  from format_cipcode_total [of "PStr ''N/A''" "ValueError (Not_a_float ''N/A'')"] facts
  show ?thesis by (simp add: text_eval)
qed

subsection \<open>The steps of the pipeline\<close>

lemma fullmatch_cip6_iff:
  "fullmatch cip6_pattern s \<longleftrightarrow>
     (\<exists>d1 d2 d3 d4 d5 d6.
        s = [d1, d2, CHR ''.'', d3, d4, d5, d6]
        \<and> is_digit d1 \<and> is_digit d2 \<and> is_digit d3 \<and> is_digit d4 \<and> is_digit d5 \<and> is_digit d6)"
  by (auto simp: fullmatch_def cip6_pattern_def numeral_eq_Suc split: list.splits if_splits)

lemma merge_left_rows:
  assumes "(l, v) \<in> set (merge_left key right left)"
  shows "l \<in> set left
    \<and> (case v of
         None \<Rightarrow> \<forall>(k, x)\<in>set right. key l \<noteq> Some k
       | Some x \<Rightarrow> \<exists>k. (k, x) \<in> set right \<and> key l = Some k)"
proof -
  from assms obtain l' where l': "l' \<in> set left"
    and v: "(l, v) \<in> set (case filter (\<lambda>(k, v). key l' = Some k) right of
                              [] \<Rightarrow> [(l', None)]
                            | m # ms \<Rightarrow> map (\<lambda>(k, v). (l', Some v)) (m # ms))"
    by (auto simp: merge_left_def)
  show ?thesis
  proof (cases "filter (\<lambda>(k, v). key l' = Some k) right")
    case Nil
    with v have "l = l'" "v = None" by simp_all
    moreover from Nil have "\<forall>(k, x)\<in>set right. key l' \<noteq> Some k"
      by (auto simp: filter_empty_conv)
    ultimately show ?thesis using l' by simp
  next
    case (Cons m ms)
    with v have "(l, v) \<in> (\<lambda>(k, x). (l', Some x)) ` set (filter (\<lambda>(k, v). key l' = Some k) right)"
      by simp
    then obtain k x where "(k, x) \<in> set (filter (\<lambda>(k, v). key l' = Some k) right)"
      and "l = l'" "v = Some x"
      by auto
    then show ?thesis using l' by auto
  qed
qed

lemma join_titles_rows:
  assumes "r \<in> set (join_titles cip_raw rows)"
  shows "\<exists>row t2 t6. row \<in> set rows \<and> r = row\<lparr>cip2_title := t2, cip6_title := t6\<rparr>
    \<and> (case t2 of
         None \<Rightarrow> \<forall>(k, x)\<in>set (cip2_lookup cip_raw). cip2 row \<noteq> Some k
       | Some x \<Rightarrow> \<exists>k. (k, x) \<in> set (cip2_lookup cip_raw) \<and> cip2 row = Some k)
    \<and> (case t6 of
         None \<Rightarrow> \<forall>(k, x)\<in>set (cip6_lookup cip_raw). cipcode row \<noteq> Some k
       | Some x \<Rightarrow> \<exists>k. (k, x) \<in> set (cip6_lookup cip_raw) \<and> cipcode row = Some k)"
proof -
  from assms obtain row2 t6 where r: "r = row2\<lparr>cip6_title := t6\<rparr>"
    and m6: "(row2, t6) \<in> set (merge_left cipcode (cip6_lookup cip_raw)
               (map (\<lambda>(row, t). row\<lparr>cip2_title := t\<rparr>) (merge_left cip2 (cip2_lookup cip_raw) rows)))"
    by (auto simp: join_titles_def)
  from merge_left_rows[OF m6] obtain row t2 where row2: "row2 = row\<lparr>cip2_title := t2\<rparr>"
    and m2: "(row, t2) \<in> set (merge_left cip2 (cip2_lookup cip_raw) rows)"
    and c6: "case t6 of
         None \<Rightarrow> \<forall>(k, x)\<in>set (cip6_lookup cip_raw). cipcode row2 \<noteq> Some k
       | Some x \<Rightarrow> \<exists>k. (k, x) \<in> set (cip6_lookup cip_raw) \<and> cipcode row2 = Some k"
    by auto
  from merge_left_rows[OF m2] have \<open>row \<in> set rows\<close>
    and c2: "case t2 of
         None \<Rightarrow> \<forall>(k, x)\<in>set (cip2_lookup cip_raw). cip2 row \<noteq> Some k
       | Some x \<Rightarrow> \<exists>k. (k, x) \<in> set (cip2_lookup cip_raw) \<and> cip2 row = Some k"
    by auto
  have c6': "case t6 of
         None \<Rightarrow> \<forall>(k, x)\<in>set (cip6_lookup cip_raw). cipcode row \<noteq> Some k
       | Some x \<Rightarrow> \<exists>k. (k, x) \<in> set (cip6_lookup cip_raw) \<and> cipcode row = Some k"
    using c6 by (cases t6) (simp_all add: row2)
  have r': "r = row\<lparr>cip2_title := t2, cip6_title := t6\<rparr>"
    by (simp add: r row2)
  from \<open>row \<in> set rows\<close> r' c2 c6' show ?thesis
    by (intro exI[of _ row] exI[of _ t2] exI[of _ t6]) simp
qed

lemma cip6_lookup_fullmatch: "(k, x) \<in> set (cip6_lookup cip_raw) \<Longrightarrow> fullmatch cip6_pattern k"
  by (auto simp: cip6_lookup_def)

lemma research_final_rows:
  assumes "r \<in> set (research_final cip_raw rows)"
  shows "is_cip6 r = str_fullmatch cip6_pattern (cipcode r)"
    and "\<exists>t. cip2_title r = Some t"
    and "\<exists>t. cip6_title r = Some t"
    and "(\<forall>k t. cip2 r = Some k \<longrightarrow> (k, t) \<notin> set (cip2_lookup cip_raw))
         \<Longrightarrow> cip2_title r = Some ''99 - Unclassified / Not in CIP taxonomy''"
    and "cip2 r = Some k \<Longrightarrow> (k, t) \<in> set (cip2_lookup cip_raw)
         \<Longrightarrow> \<exists>t'. (k, t') \<in> set (cip2_lookup cip_raw) \<and> cip2_title r = Some t'"
    and "\<not> is_cip6 r \<Longrightarrow> cip6_title r = Some ''Not a CIP6 program (aggregate / unclassified)''"
    and "\<exists>row\<in>set rows. cipcode r = cipcode row \<and> cip2 r = cip2 row \<and> unitid r = unitid row"
proof -
  from assms obtain j where j: "j \<in> set (join_titles cip_raw rows)" and r: "r = label_row j"
    by (auto simp: research_final_def)
  from join_titles_rows[OF j] obtain row t2 t6 where row: "row \<in> set rows"
    and jr: "j = row\<lparr>cip2_title := t2, cip6_title := t6\<rparr>"
    and c2: "case t2 of
         None \<Rightarrow> \<forall>(k, x)\<in>set (cip2_lookup cip_raw). cip2 row \<noteq> Some k
       | Some x \<Rightarrow> \<exists>k. (k, x) \<in> set (cip2_lookup cip_raw) \<and> cip2 row = Some k"
    and c6: "case t6 of
         None \<Rightarrow> \<forall>(k, x)\<in>set (cip6_lookup cip_raw). cipcode row \<noteq> Some k
       | Some x \<Rightarrow> \<exists>k. (k, x) \<in> set (cip6_lookup cip_raw) \<and> cipcode row = Some k"
    by blast
  have fields: "cipcode r = cipcode row" "cip2 r = cip2 row" "unitid r = unitid row"
    "cip2_title r = fillna ''99 - Unclassified / Not in CIP taxonomy'' t2"
    "cip6_title r = fillna ''Not a CIP6 program (aggregate / unclassified)'' t6"
    "is_cip6 r = str_fullmatch cip6_pattern (cipcode row)"
    by (simp_all add: r jr label_row_def)
  show "is_cip6 r = str_fullmatch cip6_pattern (cipcode r)"
    by (simp add: fields)
  show "\<exists>t. cip2_title r = Some t" "\<exists>t. cip6_title r = Some t"
    by (simp_all add: fields fillna_def split: option.splits)
  show "cip2_title r = Some ''99 - Unclassified / Not in CIP taxonomy''"
    if "\<forall>k t. cip2 r = Some k \<longrightarrow> (k, t) \<notin> set (cip2_lookup cip_raw)"
    using that c2 by (auto simp: fields fillna_def split: option.splits)
  show "\<exists>t'. (k, t') \<in> set (cip2_lookup cip_raw) \<and> cip2_title r = Some t'"
    if "cip2 r = Some k" "(k, t) \<in> set (cip2_lookup cip_raw)"
    using that c2 by (auto simp: fields fillna_def split: option.splits)
  show "cip6_title r = Some ''Not a CIP6 program (aggregate / unclassified)''" if "\<not> is_cip6 r"
    using that c6 cip6_lookup_fullmatch[of _ _ cip_raw]
    by (auto simp: fields fillna_def str_fullmatch_def split: option.splits)
  show "\<exists>row\<in>set rows. cipcode r = cipcode row \<and> cip2 r = cip2 row \<and> unitid r = unitid row"
    using row fields by blast
qed

lemma build_Inr:
  assumes "build a fs = (Inr p, fs')"
  shows "\<exists>df hd_rows cip_raw ids rows.
           fs (completions_path a) = Some (CompletionsCsv df)
           \<and> fs (hd_path a) = Some (DirectoryCsv hd_rows)
           \<and> fs (cip_path a) = Some (TaxonomyCsv cip_raw)
           \<and> load_bigten_unitids fs (bigten_unitids_path a) = Inr ids
           \<and> research (df_bigten ids (df_with_names df hd_rows)) = Inr rows
           \<and> guardrails (research_final cip_raw rows) = Inr ()
           \<and> p = out_path a
           \<and> fs' = fs(out_path a \<mapsto> ResearchCsv (research_final cip_raw rows))"
  using assms
  by (auto simp: build_def split: option.splits csv.splits sum.splits if_splits)

lemma build_Inl: "build a fs = (Inl e, fs') \<Longrightarrow> fs' = fs"
  by (auto simp: build_def split: option.splits csv.splits sum.splits if_splits)

lemma collect_Inr: "collect xs = Inr vs \<Longrightarrow> xs = map Inr vs"
  by (induction xs arbitrary: vs) (auto split: sum.splits)

lemma research_rows:
  assumes "research (df_bigten ids (df_with_names df hd_rows)) = Inr rows"
    and "row \<in> set rows"
  shows "\<exists>c\<in>set df. format_cipcode (CIPCODE c) = Inr (cipcode row) \<and> unitid row = UNITID c
           \<and> UNITID c \<in> set ids"
proof -
  let ?named = "df_bigten ids (df_with_names df hd_rows)"
  have "Inr row \<in> set (map Inr rows :: (error + research_row) list)"
    using assms(2) by simp
  with collect_Inr[OF assms(1)[unfolded research_def], symmetric]
  obtain c n where cn: "(c, n) \<in> set ?named"
    and made: "(case format_cipcode (CIPCODE c) of
          Inl e \<Rightarrow> Inl e
        | Inr code \<Rightarrow>
            Inr \<lparr>unitid = UNITID c, institution = n, cip2 = cip2_of code, cip2_title = None,
                 cipcode = code, cip6_title = None, is_cip6 = False,
                 major_number = MAJORNUM c, award_level_code = AWLEVEL c,
                 award_level_name = None, degree_group = None,
                 award_count_total = CTOTALT c\<rparr>) = Inr row"
    by auto
  from cn have "c \<in> set df" "UNITID c \<in> set ids"
    by (auto simp: df_bigten_def df_with_names_def dest: merge_left_rows)
  moreover from made have "format_cipcode (CIPCODE c) = Inr (cipcode row)" "unitid row = UNITID c"
    by (auto split: sum.splits)
  ultimately show ?thesis by blast
qed

subsection \<open>The two runs\<close>

lemma clean_text_wrapped: "clean_text wrapped_03_0104 = ''03.0104''"
  by (simp add: wrapped_03_0104_def clean_text_def re_sub_empty_def wrapper_pattern_def strip_def
        is_space_def)

lemma fullmatch_03_0104: "fullmatch cip6_pattern ''03.0104''"
  by (simp add: fullmatch_def cip6_pattern_def is_digit_def numeral_eq_Suc)

lemma cip_lookup_scenario:
  "cip_lookup scenario_taxonomy =
     [(Some ''03.0104'', Some ''Computer and Information Sciences, General.'',
       Some ''Computer and Information Sciences'', Some ''03'')]"
  by (simp add: cip_lookup_def scenario_taxonomy_def clean_excel_text_wrapper_def
        clean_text_wrapped cip2_of_def text_eval)

lemma cip2_lookup_scenario:
  "cip2_lookup scenario_taxonomy = [(''03'', ''Computer and Information Sciences'')]"
  by (simp add: cip2_lookup_def cip_lookup_scenario dropna_rows_def drop_duplicates_def)

lemma cip6_lookup_scenario:
  "cip6_lookup scenario_taxonomy = [(''03.0104'', ''Computer and Information Sciences, General.'')]"
  by (simp add: cip6_lookup_def cip_lookup_scenario dropna_rows_def drop_duplicates_def
        fullmatch_03_0104)

lemma research_scenario:
  "research (df_bigten BIGTEN_UNITIDS (df_with_names scenario_completions scenario_directory)) =
     Inr [\<lparr>unitid = 151351, institution = Some ''Indiana University-Bloomington'',
           cip2 = Some ''03'', cip2_title = None, cipcode = Some ''03.0104'', cip6_title = None,
           is_cip6 = False, major_number = Some 1, award_level_code = Some 5,
           award_level_name = None, degree_group = None, award_count_total = Some 12\<rparr>]"
  by (simp add: research_def df_bigten_def df_with_names_def hd_names_def merge_left_def
        drop_duplicates_def scenario_completions_def scenario_directory_def BIGTEN_UNITIDS_def
        cipcode_of_float_3_0104 cip2_of_def text_eval)

lemma research_final_scenario:
  "research_final scenario_taxonomy
     [\<lparr>unitid = 151351, institution = Some ''Indiana University-Bloomington'',
       cip2 = Some ''03'', cip2_title = None, cipcode = Some ''03.0104'', cip6_title = None,
       is_cip6 = False, major_number = Some 1, award_level_code = Some 5,
       award_level_name = None, degree_group = None, award_count_total = Some 12\<rparr>]
   = [scenario_row]"
  by (simp add: research_final_def join_titles_def merge_left_def cip2_lookup_scenario
        cip6_lookup_scenario label_row_def fillna_def award_level_labels_def degree_group_of_def
        str_fullmatch_def fullmatch_03_0104 scenario_row_def)

lemma transform_scenario:
  "transform scenario_completions scenario_directory scenario_taxonomy BIGTEN_UNITIDS
     = Inr [scenario_row]"
  by (simp add: transform_def research_scenario research_final_scenario)

lemma guardrails_scenario:
  "guardrails [scenario_row] = Inl (ValueError (Expected_18_institutions 1))"
  by (simp add: guardrails_def scenario_row_def)

lemma load_scenario:
  "load_bigten_unitids scenario_files (bigten_unitids_path scenario_args) = Inr BIGTEN_UNITIDS"
  by (simp add: load_bigten_unitids_def scenario_files_def scenario_args_def)

lemma build_scenario:
  "build scenario_args scenario_files
     = (Inl (ValueError (Expected_18_institutions 1)), scenario_files)"
proof -
  have files:
    "scenario_files (completions_path scenario_args) = Some (CompletionsCsv scenario_completions)"
    "scenario_files (hd_path scenario_args) = Some (DirectoryCsv scenario_directory)"
    "scenario_files (cip_path scenario_args) = Some (TaxonomyCsv scenario_taxonomy)"
    by (simp_all add: scenario_files_def scenario_args_def)
  show ?thesis
    by (simp add: build_def files load_scenario research_scenario research_final_scenario
          guardrails_scenario)
qed
lemma format_cipcode_int_99: "format_cipcode (PInt 99) = Inr (Some ''99.0000'')"
proof -
  have shown_int: "py_str (PInt 99) = ''99''"
    by (simp add: show_int_def show_nat.simps)
  have parsed: "py_float ''99'' = Inr (Finite False 99)"
    by (simp add: parse_eval text_eval float_eval)
  have shown: "fmt4 (Finite False 99) = ''99.0000''"
    by (simp add: float_eval show_nat.simps pad_left_def replicate_numeral_Cons)
  show ?thesis
    by (simp add: format_cipcode_def isna_def numeric_formatting_def shown_int parsed shown text_eval
          del: py_str.simps fmt4.simps)
qed

lemma format_cipcode_PNone: "format_cipcode PNone = Inr None"
  by (simp add: format_cipcode_def isna_def)

lemma eighteen_run:
  "\<exists>rows. research (df_bigten BIGTEN_UNITIDS (df_with_names eighteen_completions scenario_directory))
             = Inr rows
          \<and> guardrails (research_final scenario_taxonomy rows) = Inr ()
          \<and> scenario_row \<in> set (research_final scenario_taxonomy rows)"
  by (simp add: research_def df_bigten_def df_with_names_def hd_names_def merge_left_def
        drop_duplicates_def eighteen_completions_def scenario_completions_def
        scenario_directory_def BIGTEN_UNITIDS_def
        cipcode_of_float_3_0104 format_cipcode_int_99 format_cipcode_PNone cip2_of_def text_eval
        research_final_def join_titles_def cip2_lookup_scenario
        cip6_lookup_scenario label_row_def fillna_def award_level_labels_def degree_group_of_def
        str_fullmatch_def fullmatch_cip6_iff is_digit_def scenario_row_def guardrails_def)

lemma build_eighteen:
  "\<exists>final. build scenario_args eighteen_files
            = (Inr (out_path scenario_args),
               eighteen_files(out_path scenario_args \<mapsto> ResearchCsv final))
          \<and> scenario_row \<in> set final"
proof -
  have files:
    "eighteen_files (completions_path scenario_args) = Some (CompletionsCsv eighteen_completions)"
    "eighteen_files (hd_path scenario_args) = Some (DirectoryCsv scenario_directory)"
    "eighteen_files (cip_path scenario_args) = Some (TaxonomyCsv scenario_taxonomy)"
    by (simp_all add: eighteen_files_def scenario_files_def scenario_args_def)
  have load: "load_bigten_unitids eighteen_files (bigten_unitids_path scenario_args) = Inr BIGTEN_UNITIDS"
    by (simp add: load_bigten_unitids_def eighteen_files_def scenario_files_def scenario_args_def)
  from eighteen_run obtain rows
    where "research (df_bigten BIGTEN_UNITIDS (df_with_names eighteen_completions scenario_directory))
             = Inr rows"
      and "guardrails (research_final scenario_taxonomy rows) = Inr ()"
      and "scenario_row \<in> set (research_final scenario_taxonomy rows)"
    by blast
  then show ?thesis
    by (intro exI[of _ "research_final scenario_taxonomy rows"]) (simp add: build_def files load)
qed

text \<open>
  C1, as written. In the scenario \<open>build\<close> does not succeed: the output would hold one
  institution, the first guardrail expects 18, and nothing is written.
\<close>

theorem build_scenario_counterexample:
  "build scenario_args scenario_files
     = (Inl (ValueError (Expected_18_institutions 1)), scenario_files)
   \<and> scenario_files (out_path scenario_args) = None"
  using build_scenario by (simp add: scenario_files_def scenario_args_def)

text \<open>
  C1, amended. In the scenario the embedded allow-list is in force and the transformation
  yields exactly one row, the one the claim lists; \<open>build\<close> then stops at the
  institution-count guardrail (1 institution, not 18) and writes nothing. With a row for
  each of the other seventeen institutions of the allow-list in the completions table,
  \<open>build\<close> succeeds and the table it writes holds that row.
\<close>

theorem build_scenario_row:
  "load_bigten_unitids scenario_files (bigten_unitids_path scenario_args) = Inr BIGTEN_UNITIDS
   \<and> transform scenario_completions scenario_directory scenario_taxonomy BIGTEN_UNITIDS
       = Inr [scenario_row]
   \<and> guardrails [scenario_row] = Inl (ValueError (Expected_18_institutions 1))
   \<and> build scenario_args scenario_files
       = (Inl (ValueError (Expected_18_institutions 1)), scenario_files)
   \<and> (\<exists>final. build scenario_args eighteen_files
                = (Inr (out_path scenario_args),
                   eighteen_files(out_path scenario_args \<mapsto> ResearchCsv final))
              \<and> scenario_row \<in> set final)"
  using load_scenario transform_scenario guardrails_scenario build_scenario build_eighteen
  by simp

theorem build_scenario_row_witness:
  "transform scenario_completions scenario_directory scenario_taxonomy BIGTEN_UNITIDS
     = Inr [\<lparr>unitid = 151351, institution = Some ''Indiana University-Bloomington'',
             cip2 = Some ''03'', cip2_title = Some ''Computer and Information Sciences'',
             cipcode = Some ''03.0104'',
             cip6_title = Some ''Computer and Information Sciences, General.'', is_cip6 = True,
             major_number = Some 1, award_level_code = Some 5,
             award_level_name = Some ''Bachelors'', degree_group = Some ''Bachelors'',
             award_count_total = Some 12\<rparr>]"
  using build_scenario_row by (simp add: scenario_row_def)

subsection \<open>The rows that are written\<close>

text \<open>
  C4. Every row that \<open>build\<close> writes has a 2-digit title and a 6-digit title. The
  2-digit title is the placeholder when the 2-digit category of the row is not in the
  lookup made from the taxonomy, and a title of the lookup when it is; the 6-digit title is
  the placeholder when the code of the row is not a true 6-digit code.
\<close>

theorem output_titles_never_missing:
  assumes "build a fs = (Inr p, fs')"
  shows "\<exists>rows cip_raw.
           fs (cip_path a) = Some (TaxonomyCsv cip_raw)
           \<and> fs' (out_path a) = Some (ResearchCsv rows)
           \<and> (\<forall>r\<in>set rows.
                 (\<exists>t. cip2_title r = Some t) \<and> (\<exists>t. cip6_title r = Some t)
                 \<and> ((\<forall>k t. cip2 r = Some k \<longrightarrow> (k, t) \<notin> set (cip2_lookup cip_raw))
                      \<longrightarrow> cip2_title r = Some ''99 - Unclassified / Not in CIP taxonomy'')
                 \<and> (\<forall>k t. cip2 r = Some k \<and> (k, t) \<in> set (cip2_lookup cip_raw)
                      \<longrightarrow> (\<exists>t'. (k, t') \<in> set (cip2_lookup cip_raw) \<and> cip2_title r = Some t'))
                 \<and> (\<not> is_cip6 r
                      \<longrightarrow> cip6_title r = Some ''Not a CIP6 program (aggregate / unclassified)''))"
proof -
  from build_Inr[OF assms] obtain cip_raw rows
    where cip: "fs (cip_path a) = Some (TaxonomyCsv cip_raw)"
      and out: "fs' = fs(out_path a \<mapsto> ResearchCsv (research_final cip_raw rows))"
    by blast
  have "\<forall>r\<in>set (research_final cip_raw rows).
          (\<exists>t. cip2_title r = Some t) \<and> (\<exists>t. cip6_title r = Some t)
          \<and> ((\<forall>k t. cip2 r = Some k \<longrightarrow> (k, t) \<notin> set (cip2_lookup cip_raw))
               \<longrightarrow> cip2_title r = Some ''99 - Unclassified / Not in CIP taxonomy'')
          \<and> (\<forall>k t. cip2 r = Some k \<and> (k, t) \<in> set (cip2_lookup cip_raw)
               \<longrightarrow> (\<exists>t'. (k, t') \<in> set (cip2_lookup cip_raw) \<and> cip2_title r = Some t'))
          \<and> (\<not> is_cip6 r
               \<longrightarrow> cip6_title r = Some ''Not a CIP6 program (aggregate / unclassified)'')"
    using research_final_rows(2,3,4,5,6) by blast
  with cip out show ?thesis by auto
qed

theorem output_titles_never_missing_witness:
  "\<exists>fs' rows. build scenario_args eighteen_files = (Inr (out_path scenario_args), fs')
      \<and> fs' (out_path scenario_args) = Some (ResearchCsv rows)
      \<and> scenario_row \<in> set rows
      \<and> (\<exists>t. cip2_title scenario_row = Some t) \<and> (\<exists>t. cip6_title scenario_row = Some t)"
proof -
  from build_eighteen obtain final
    where run: "build scenario_args eighteen_files
                  = (Inr (out_path scenario_args),
                     eighteen_files(out_path scenario_args \<mapsto> ResearchCsv final))"
      and row: "scenario_row \<in> set final"
    by blast
  from output_titles_never_missing[OF run] row
  have "(\<exists>t. cip2_title scenario_row = Some t) \<and> (\<exists>t. cip6_title scenario_row = Some t)"
    by auto
  with run row show ?thesis by auto
qed

text \<open>
  C6. In every row that \<open>build\<close> writes, the code is the normalized code of a completions
  row, and \<^verbatim>\<open>is_cip6\<close> holds exactly when that code is two digits, a point and four
  digits; a row without a code has the flag false.
\<close>

theorem is_cip6_iff_pattern:
  assumes "build a fs = (Inr p, fs')"
  shows "\<exists>rows df.
           fs (completions_path a) = Some (CompletionsCsv df)
           \<and> fs' (out_path a) = Some (ResearchCsv rows)
           \<and> (\<forall>r\<in>set rows.
                 (\<exists>c\<in>set df. format_cipcode (CIPCODE c) = Inr (cipcode r))
                 \<and> (is_cip6 r \<longleftrightarrow>
                      (\<exists>d1 d2 d3 d4 d5 d6.
                         cipcode r = Some [d1, d2, CHR ''.'', d3, d4, d5, d6]
                         \<and> is_digit d1 \<and> is_digit d2 \<and> is_digit d3 \<and> is_digit d4
                         \<and> is_digit d5 \<and> is_digit d6))
                 \<and> (cipcode r = None \<longrightarrow> \<not> is_cip6 r))"
proof -
  from build_Inr[OF assms] obtain df hd_rows cip_raw ids rows
    where df: "fs (completions_path a) = Some (CompletionsCsv df)"
      and research: "research (df_bigten ids (df_with_names df hd_rows)) = Inr rows"
      and out: "fs' = fs(out_path a \<mapsto> ResearchCsv (research_final cip_raw rows))"
    by blast
  have "(\<exists>c\<in>set df. format_cipcode (CIPCODE c) = Inr (cipcode r))
        \<and> (is_cip6 r \<longleftrightarrow>
             (\<exists>d1 d2 d3 d4 d5 d6.
                cipcode r = Some [d1, d2, CHR ''.'', d3, d4, d5, d6]
                \<and> is_digit d1 \<and> is_digit d2 \<and> is_digit d3 \<and> is_digit d4
                \<and> is_digit d5 \<and> is_digit d6))
        \<and> (cipcode r = None \<longrightarrow> \<not> is_cip6 r)"
    if r: "r \<in> set (research_final cip_raw rows)" for r
  proof -
    from research_final_rows(7)[OF r] obtain row
      where row: "row \<in> set rows" and code: "cipcode r = cipcode row"
      by blast
    from research_rows[OF research row] obtain c
      where "c \<in> set df" "format_cipcode (CIPCODE c) = Inr (cipcode row)"
      by blast
    then have source: "\<exists>c\<in>set df. format_cipcode (CIPCODE c) = Inr (cipcode r)"
      using code by auto
    have flag: "is_cip6 r = str_fullmatch cip6_pattern (cipcode r)"
      by (rule research_final_rows(1)[OF r])
    from source flag show ?thesis
      by (cases "cipcode r") (simp_all add: str_fullmatch_def fullmatch_cip6_iff)
  qed
  with df out show ?thesis by auto
qed

theorem is_cip6_iff_pattern_witness:
  "\<exists>fs' rows. build scenario_args eighteen_files = (Inr (out_path scenario_args), fs')
      \<and> fs' (out_path scenario_args) = Some (ResearchCsv rows)
      \<and> scenario_row \<in> set rows
      \<and> is_cip6 scenario_row = (cipcode scenario_row = Some ''03.0104'')"
proof -
  from build_eighteen obtain final
    where run: "build scenario_args eighteen_files
                  = (Inr (out_path scenario_args),
                     eighteen_files(out_path scenario_args \<mapsto> ResearchCsv final))"
      and row: "scenario_row \<in> set final"
    by blast
  from is_cip6_iff_pattern[OF run] row
  have "is_cip6 scenario_row \<longleftrightarrow>
          (\<exists>d1 d2 d3 d4 d5 d6.
             cipcode scenario_row = Some [d1, d2, CHR ''.'', d3, d4, d5, d6]
             \<and> is_digit d1 \<and> is_digit d2 \<and> is_digit d3 \<and> is_digit d4
             \<and> is_digit d5 \<and> is_digit d6)"
    by auto
  moreover have "cipcode scenario_row = Some ''03.0104''"
    by (simp add: scenario_row_def)
  ultimately have "is_cip6 scenario_row = (cipcode scenario_row = Some ''03.0104'')"
    by (simp add: is_digit_def)
  with run row show ?thesis by auto
qed

subsection \<open>The guardrails\<close>

lemma guardrails_Inr_iff:
  "guardrails rows = Inr () \<longleftrightarrow>
     length (remdups (map unitid rows)) = 18
     \<and> (\<forall>r\<in>set rows. cip2_title r \<noteq> None)
     \<and> (\<forall>r\<in>set rows. is_cip6 r \<longrightarrow> cip6_title r \<noteq> None)"
  by (auto simp: guardrails_def Let_def filter_empty_conv)

lemma build_guardrails_fail:
  assumes "fs (completions_path a) = Some (CompletionsCsv df)"
    and "fs (hd_path a) = Some (DirectoryCsv hd_rows)"
    and "fs (cip_path a) = Some (TaxonomyCsv cip_raw)"
    and "load_bigten_unitids fs (bigten_unitids_path a) = Inr ids"
    and "transform df hd_rows cip_raw ids = Inr final"
    and "guardrails final = Inl e"
  shows "build a fs = (Inl e, fs)"
  using assms by (auto simp: build_def transform_def split: sum.splits)

lemma distinct_BIGTEN_UNITIDS: "distinct BIGTEN_UNITIDS"
  by (simp add: BIGTEN_UNITIDS_def)

lemma guardrails_without_cip2_title:
  "length (remdups (map unitid rows_without_cip2_title)) = 18"
  "length (filter (\<lambda>r. cip2_title r = None) rows_without_cip2_title) = 18"
  "filter (\<lambda>r. cip2_title r = None) rows_without_cip2_title \<noteq> []"
proof -
  have ids: "map unitid rows_without_cip2_title = BIGTEN_UNITIDS"
    by (simp add: rows_without_cip2_title_def comp_def)
  show "length (remdups (map unitid rows_without_cip2_title)) = 18"
    by (simp add: ids distinct_remdups_id[OF distinct_BIGTEN_UNITIDS])
       (simp add: BIGTEN_UNITIDS_def)
  show n: "length (filter (\<lambda>r. cip2_title r = None) rows_without_cip2_title) = 18"
    by (simp add: rows_without_cip2_title_def BIGTEN_UNITIDS_def)
  then show "filter (\<lambda>r. cip2_title r = None) rows_without_cip2_title \<noteq> []"
    by auto
qed

lemma guardrails_without_cip6_title:
  "length (remdups (map unitid rows_without_cip6_title)) = 18"
  "filter (\<lambda>r. cip2_title r = None) rows_without_cip6_title = []"
  "length (filter (\<lambda>r. cip6_title r = None) (filter is_cip6 rows_without_cip6_title)) = 18"
  "filter (\<lambda>r. cip6_title r = None) (filter is_cip6 rows_without_cip6_title) \<noteq> []"
proof -
  have ids: "map unitid rows_without_cip6_title = BIGTEN_UNITIDS"
    by (simp add: rows_without_cip6_title_def comp_def)
  show "length (remdups (map unitid rows_without_cip6_title)) = 18"
    by (simp add: ids distinct_remdups_id[OF distinct_BIGTEN_UNITIDS])
       (simp add: BIGTEN_UNITIDS_def)
  show "filter (\<lambda>r. cip2_title r = None) rows_without_cip6_title = []"
    by (simp add: rows_without_cip6_title_def scenario_row_def filter_empty_conv)
  show n: "length (filter (\<lambda>r. cip6_title r = None) (filter is_cip6 rows_without_cip6_title)) = 18"
    by (simp add: rows_without_cip6_title_def scenario_row_def BIGTEN_UNITIDS_def)
  then show "filter (\<lambda>r. cip6_title r = None) (filter is_cip6 rows_without_cip6_title) \<noteq> []"
    by auto
qed

text \<open>
  C5. Each guardrail that fails makes \<open>guardrails\<close> raise the \<^verbatim>\<open>ValueError\<close> of that
  check, with the count it found: the institutions when they are not 18, else the rows
  without a 2-digit title, else the true 6-digit rows without a 6-digit title; it passes
  exactly when the three checks hold. When \<open>guardrails\<close> raises on the transformed table,
  \<open>build\<close> ends with that exception; whenever \<open>build\<close> ends with an exception the file
  system is as before; and when \<open>build\<close> returns, what it added is a table that passes
  the guardrails, stored at the output path.
\<close>

theorem guardrails_before_write:
  "(length (remdups (map unitid rows)) \<noteq> 18
      \<longrightarrow> guardrails rows
            = Inl (ValueError (Expected_18_institutions (length (remdups (map unitid rows))))))
   \<and> (length (remdups (map unitid rows)) = 18 \<and> filter (\<lambda>r. cip2_title r = None) rows \<noteq> []
      \<longrightarrow> guardrails rows
            = Inl (ValueError (Missing_cip2_title
                                 (length (filter (\<lambda>r. cip2_title r = None) rows)))))
   \<and> (length (remdups (map unitid rows)) = 18 \<and> filter (\<lambda>r. cip2_title r = None) rows = []
        \<and> filter (\<lambda>r. cip6_title r = None) (filter is_cip6 rows) \<noteq> []
      \<longrightarrow> guardrails rows
            = Inl (ValueError (Missing_cip6_title
                                 (length (filter (\<lambda>r. cip6_title r = None)
                                            (filter is_cip6 rows))))))
   \<and> (guardrails rows = Inr () \<longleftrightarrow>
        length (remdups (map unitid rows)) = 18
        \<and> (\<forall>r\<in>set rows. cip2_title r \<noteq> None)
        \<and> (\<forall>r\<in>set rows. is_cip6 r \<longrightarrow> cip6_title r \<noteq> None))
   \<and> (fs (completions_path a) = Some (CompletionsCsv df)
        \<and> fs (hd_path a) = Some (DirectoryCsv hd_rows)
        \<and> fs (cip_path a) = Some (TaxonomyCsv cip_raw)
        \<and> load_bigten_unitids fs (bigten_unitids_path a) = Inr ids
        \<and> transform df hd_rows cip_raw ids = Inr final
        \<and> guardrails final = Inl e
      \<longrightarrow> build a fs = (Inl e, fs))
   \<and> (build a fs = (Inl e', fs') \<longrightarrow> fs' = fs)
   \<and> (build a fs = (Inr p, fs'')
      \<longrightarrow> p = out_path a
          \<and> (\<exists>written. guardrails written = Inr ()
                \<and> fs'' = fs(out_path a \<mapsto> ResearchCsv written)))"
proof -
  have first: "length (remdups (map unitid rows)) \<noteq> 18
      \<longrightarrow> guardrails rows
            = Inl (ValueError (Expected_18_institutions (length (remdups (map unitid rows)))))"
    by (simp add: guardrails_def Let_def)
  have second: "length (remdups (map unitid rows)) = 18 \<and> filter (\<lambda>r. cip2_title r = None) rows \<noteq> []
      \<longrightarrow> guardrails rows
            = Inl (ValueError (Missing_cip2_title
                                 (length (filter (\<lambda>r. cip2_title r = None) rows))))"
    by (simp add: guardrails_def Let_def)
  have third: "length (remdups (map unitid rows)) = 18 \<and> filter (\<lambda>r. cip2_title r = None) rows = []
        \<and> filter (\<lambda>r. cip6_title r = None) (filter is_cip6 rows) \<noteq> []
      \<longrightarrow> guardrails rows
            = Inl (ValueError (Missing_cip6_title
                                 (length (filter (\<lambda>r. cip6_title r = None)
                                            (filter is_cip6 rows)))))"
    by (simp add: guardrails_def Let_def)
  have raised: "build a fs = (Inl e', fs') \<longrightarrow> fs' = fs"
    using build_Inl by blast
  have returned: "build a fs = (Inr p, fs'')
      \<longrightarrow> p = out_path a
          \<and> (\<exists>written. guardrails written = Inr ()
                \<and> fs'' = fs(out_path a \<mapsto> ResearchCsv written))"
    using build_Inr by blast
  from first second third guardrails_Inr_iff[of rows]
       build_guardrails_fail[of fs a df hd_rows cip_raw ids final e] raised returned
  show ?thesis by blast
qed

theorem guardrails_before_write_witness:
  "guardrails [scenario_row] = Inl (ValueError (Expected_18_institutions 1))
   \<and> guardrails rows_without_cip2_title = Inl (ValueError (Missing_cip2_title 18))
   \<and> guardrails rows_without_cip6_title = Inl (ValueError (Missing_cip6_title 18))
   \<and> transform scenario_completions scenario_directory scenario_taxonomy BIGTEN_UNITIDS
       = Inr [scenario_row]
   \<and> build scenario_args scenario_files
       = (Inl (ValueError (Expected_18_institutions 1)), scenario_files)
   \<and> (\<exists>written. build scenario_args eighteen_files
                  = (Inr (out_path scenario_args),
                     eighteen_files(out_path scenario_args \<mapsto> ResearchCsv written))
                \<and> guardrails written = Inr ())"
proof -
  have one: "length (remdups (map unitid [scenario_row])) = 1"
    by simp
  have first: "guardrails [scenario_row] = Inl (ValueError (Expected_18_institutions 1))"
    using guardrails_before_write[of "[scenario_row]"] one by simp
  have second: "guardrails rows_without_cip2_title = Inl (ValueError (Missing_cip2_title 18))"
    using guardrails_before_write[of rows_without_cip2_title] guardrails_without_cip2_title
    by simp
  have third: "guardrails rows_without_cip6_title = Inl (ValueError (Missing_cip6_title 18))"
    using guardrails_before_write[of rows_without_cip6_title] guardrails_without_cip6_title
    by simp
  have files:
    "scenario_files (completions_path scenario_args) = Some (CompletionsCsv scenario_completions)"
    "scenario_files (hd_path scenario_args) = Some (DirectoryCsv scenario_directory)"
    "scenario_files (cip_path scenario_args) = Some (TaxonomyCsv scenario_taxonomy)"
    by (simp_all add: scenario_files_def scenario_args_def)
  have aborted: "build scenario_args scenario_files
       = (Inl (ValueError (Expected_18_institutions 1)), scenario_files)"
    using guardrails_before_write
            [of _ scenario_files scenario_args scenario_completions scenario_directory
                scenario_taxonomy BIGTEN_UNITIDS "[scenario_row]"
                "ValueError (Expected_18_institutions 1)"]
          files load_scenario transform_scenario first
    by simp
  from build_eighteen obtain final
    where run: "build scenario_args eighteen_files
                  = (Inr (out_path scenario_args),
                     eighteen_files(out_path scenario_args \<mapsto> ResearchCsv final))"
    by blast
  from guardrails_before_write[of _ eighteen_files scenario_args _ _ _ _ _ _ _ _
         "out_path scenario_args"
         "eighteen_files(out_path scenario_args \<mapsto> ResearchCsv final)"] run
  obtain written where "guardrails written = Inr ()"
    and "eighteen_files(out_path scenario_args \<mapsto> ResearchCsv final)
           = eighteen_files(out_path scenario_args \<mapsto> ResearchCsv written)"
    by blast
  with run have passed: "\<exists>written. build scenario_args eighteen_files
                  = (Inr (out_path scenario_args),
                     eighteen_files(out_path scenario_args \<mapsto> ResearchCsv written))
                \<and> guardrails written = Inr ()"
    by auto
  from first second third transform_scenario aborted passed show ?thesis by simp
qed

subsection \<open>The text unwrapper\<close>

lemma length_strip_le: "length (strip s) \<le> length s"
proof -
  have "length (strip s) \<le> length (dropWhile is_space s)"
    unfolding strip_def using length_dropWhile_le[of is_space "rev (dropWhile is_space s)"]
    by simp
  also have "\<dots> \<le> length s"
    by (rule length_dropWhile_le)
  finally show ?thesis .
qed

lemma strip_ends:
  assumes "strip s \<noteq> []"
  shows "\<not> is_space (hd (strip s))" and "\<not> is_space (last (strip s))"
proof -
  define t where "t = dropWhile is_space s"
  define u where "u = dropWhile is_space (rev t)"
  have s: "strip s = rev u"
    by (simp add: strip_def t_def u_def)
  with assms have u: "u \<noteq> []" by simp
  then have "\<not> is_space (hd u)"
    unfolding u_def by (simp add: hd_dropWhile)
  then show "\<not> is_space (last (strip s))"
    using u by (simp add: s last_rev)
  from u have t: "t \<noteq> []"
    by (auto simp: u_def)
  then have "\<not> is_space (hd t)"
    unfolding t_def by (simp add: hd_dropWhile)
  moreover obtain v where "rev t = v @ u"
    unfolding u_def by (metis takeWhile_dropWhile_id)
  then have "last u = last (rev t)"
    using u by simp
  then have "last u = hd t"
    using t by (simp add: last_rev)
  ultimately show "\<not> is_space (hd (strip s))"
    using u by (simp add: s hd_rev)
qed

lemma strip_id:
  assumes "s = [] \<or> (\<not> is_space (hd s) \<and> \<not> is_space (last s))"
  shows "strip s = s"
proof (cases "s = []")
  case True
  then show ?thesis by (simp add: strip_def)
next
  case False
  with assms have ends: "\<not> is_space (hd s)" "\<not> is_space (last s)" by simp_all
  from False ends(1) have front: "dropWhile is_space s = s"
    by (cases s) simp_all
  from False obtain xs x where "s = xs @ [x]"
    by (cases s rule: rev_cases) auto
  with ends(2) have rear: "dropWhile is_space (rev s) = rev s"
    by simp
  show ?thesis
    by (simp add: strip_def front rear)
qed

lemma strip_strip: "strip (strip s) = strip s"
  using strip_ends[of s] by (intro strip_id) blast

lemma matches_wrapper_False:
  "matches wrapper_pattern (False, c # cs) =
     (if c = CHR 0x22 \<and> (cs = [] \<or> cs = [CHR 0x0A]) then [(False, cs)] else [])"
  by (simp add: wrapper_pattern_def)

lemma matches_wrapper_True:
  "matches wrapper_pattern (True, c # cs) =
     (if c = CHR ''=''
      then (case cs of
              [] \<Rightarrow> [(False, [])]
            | d # ds \<Rightarrow> if d = CHR 0x22 then [(False, ds), (False, cs)] else [(False, cs)])
      else if c = CHR 0x22 \<and> (cs = [] \<or> cs = [CHR 0x0A]) then [(False, cs)] else [])"
  by (simp add: wrapper_pattern_def split: list.splits)

lemma sub_wrapper_False:
  "sub_from wrapper_pattern (False, c # cs) =
     (if c = CHR 0x22 \<and> (cs = [] \<or> cs = [CHR 0x0A]) then sub_from wrapper_pattern (False, cs)
      else c # sub_from wrapper_pattern (False, cs))"
  by (simp add: matches_wrapper_False del: matches.simps)

lemma sub_wrapper_True:
  "sub_from wrapper_pattern (True, c # cs) =
     (if c = CHR ''=''
      then (case cs of
              [] \<Rightarrow> []
            | d # ds \<Rightarrow> if d = CHR 0x22 then sub_from wrapper_pattern (False, ds)
                        else sub_from wrapper_pattern (False, cs))
      else sub_from wrapper_pattern (False, c # cs))"
  by (simp add: matches_wrapper_True matches_wrapper_False del: matches.simps split: list.splits)

lemma length_sub_wrapper_False: "length (sub_from wrapper_pattern (False, s)) \<le> length s"
  by (induction s) (auto simp: sub_wrapper_False simp del: sub_from.simps(2))

lemma sub_wrapper_False_id:
  "s = [] \<or> (last s \<noteq> CHR 0x22 \<and> last s \<noteq> CHR 0x0A) \<Longrightarrow> sub_from wrapper_pattern (False, s) = s"
proof (induction s)
  case Nil
  then show ?case by simp
next
  case (Cons c cs)
  then show ?case
    by (cases "cs = []") (auto simp: sub_wrapper_False simp del: sub_from.simps(2))
qed

lemma sub_wrapper_False_quote:
  "s \<noteq> [] \<Longrightarrow> last s = CHR 0x22 \<Longrightarrow> length (sub_from wrapper_pattern (False, s)) < length s"
proof (induction s)
  case Nil
  then show ?case by simp
next
  case (Cons c cs)
  show ?case
  proof (cases "cs = []")
    case True
    with Cons.prems show ?thesis
      by (simp add: sub_wrapper_False del: sub_from.simps(2))
  next
    case False
    with Cons have "length (sub_from wrapper_pattern (False, cs)) < length cs"
      by simp
    then show ?thesis
      using length_sub_wrapper_False[of cs]
      by (auto simp: sub_wrapper_False simp del: sub_from.simps(2))
  qed
qed

lemma sub_wrapper_True_equals:
  "length (sub_from wrapper_pattern (True, CHR ''='' # cs)) < length (CHR ''='' # cs)"
proof (cases cs)
  case Nil
  then show ?thesis
    by (simp add: sub_wrapper_True del: sub_from.simps(2))
next
  case (Cons d ds)
  then show ?thesis
    using length_sub_wrapper_False[of ds] length_sub_wrapper_False[of cs]
    by (auto simp: sub_wrapper_True simp del: sub_from.simps(2))
qed

lemma sub_wrapper_True_other:
  "take 1 s \<noteq> ''='' \<Longrightarrow> sub_from wrapper_pattern (True, s) = sub_from wrapper_pattern (False, s)"
  by (cases s) (auto simp: sub_wrapper_True simp del: sub_from.simps(2))

lemma newline_is_space: "is_space (CHR 0x0A)"
  by (simp add: is_space_def)

lemma clean_text_fixed_iff:
  assumes "strip y = y"
  shows "clean_text y = y \<longleftrightarrow> take 1 y \<noteq> ''='' \<and> (y = [] \<or> last y \<noteq> CHR 0x22)"
proof
  assume "take 1 y \<noteq> ''='' \<and> (y = [] \<or> last y \<noteq> CHR 0x22)"
  then have start: "take 1 y \<noteq> ''=''" and quote: "y = [] \<or> last y \<noteq> CHR 0x22"
    by simp_all
  have "y = [] \<or> (last y \<noteq> CHR 0x22 \<and> last y \<noteq> CHR 0x0A)"
  proof (cases "y = []")
    case True
    then show ?thesis by simp
  next
    case False
    with assms strip_ends(2)[of y] have "\<not> is_space (last y)" by simp
    with newline_is_space have "last y \<noteq> CHR 0x0A" by auto
    with quote False show ?thesis by simp
  qed
  then have "sub_from wrapper_pattern (False, y) = y"
    by (rule sub_wrapper_False_id)
  with start have "re_sub_empty wrapper_pattern y = y"
    by (simp add: re_sub_empty_def sub_wrapper_True_other)
  with assms show "clean_text y = y"
    by (simp add: clean_text_def)
next
  assume fixed: "clean_text y = y"
  have shorter: "length (clean_text y) < length y"
    if "length (sub_from wrapper_pattern (True, y)) < length y"
    using that length_strip_le[of "sub_from wrapper_pattern (True, y)"] assms
    by (simp add: clean_text_def re_sub_empty_def)
  have "take 1 y \<noteq> ''=''"
  proof
    assume "take 1 y = ''=''"
    then obtain cs where "y = CHR ''='' # cs"
      by (cases y) simp_all
    with sub_wrapper_True_equals[of cs] shorter fixed show False by simp
  qed
  moreover have "y = [] \<or> last y \<noteq> CHR 0x22"
  proof (rule ccontr)
    assume "\<not> (y = [] \<or> last y \<noteq> CHR 0x22)"
    then have y: "y \<noteq> []" "last y = CHR 0x22" by simp_all
    from \<open>take 1 y \<noteq> ''=''\<close>
    have "sub_from wrapper_pattern (True, y) = sub_from wrapper_pattern (False, y)"
      by (rule sub_wrapper_True_other)
    with sub_wrapper_False_quote[OF y] shorter fixed show False by simp
  qed
  ultimately show "take 1 y \<noteq> ''='' \<and> (y = [] \<or> last y \<noteq> CHR 0x22)" ..
qed

lemma strip_clean_text: "strip (clean_text x) = clean_text x"
  by (simp add: clean_text_def strip_strip)

lemma clean_text_double_equals: "clean_text ''==x'' = ''=x''" "clean_text ''=x'' = ''x''"
  by (simp_all add: clean_text_def re_sub_empty_def wrapper_pattern_def strip_def is_space_def)

text \<open>
  C2, as written. The unwrapper is not idempotent: it removes one leading \<^verbatim>\<open>=\<close> at a
  time, so that \<^verbatim>\<open>==x\<close> becomes \<^verbatim>\<open>=x\<close> and then \<^verbatim>\<open>x\<close>.
\<close>

theorem clean_excel_text_wrapper_counterexample:
  "clean_excel_text_wrapper [Some ''==x''] = [Some ''=x'']
   \<and> clean_excel_text_wrapper (clean_excel_text_wrapper [Some ''==x'']) = [Some ''x'']
   \<and> clean_excel_text_wrapper (clean_excel_text_wrapper [Some ''==x''])
       \<noteq> clean_excel_text_wrapper [Some ''==x'']"
  by (simp add: clean_excel_text_wrapper_def clean_text_double_equals)

text \<open>
  C2, amended. Applying the unwrapper a second time changes nothing exactly when the
  first result neither starts with \<^verbatim>\<open>=\<close> nor ends with a double quote; this holds of
  every text and of every series, whose missing cells stay missing. It is so for
  \<^verbatim>\<open>="03.0104"\<close>.
\<close>

theorem clean_excel_text_wrapper_twice:
  "(clean_text (clean_text x) = clean_text x \<longleftrightarrow>
      take 1 (clean_text x) \<noteq> ''='' \<and> (clean_text x = [] \<or> last (clean_text x) \<noteq> CHR 0x22))
   \<and> (clean_excel_text_wrapper (clean_excel_text_wrapper series) = clean_excel_text_wrapper series
       \<longleftrightarrow> (\<forall>y. Some y \<in> set (clean_excel_text_wrapper series)
                 \<longrightarrow> take 1 y \<noteq> ''='' \<and> (y = [] \<or> last y \<noteq> CHR 0x22)))"
proof -
  define cleaned where "cleaned = clean_excel_text_wrapper series"
  have one: "clean_text (clean_text x) = clean_text x \<longleftrightarrow>
      take 1 (clean_text x) \<noteq> ''='' \<and> (clean_text x = [] \<or> last (clean_text x) \<noteq> CHR 0x22)"
    by (rule clean_text_fixed_iff[OF strip_clean_text])
  have cell: "map_option clean_text c = c \<longleftrightarrow>
                (\<forall>y. c = Some y \<longrightarrow> take 1 y \<noteq> ''='' \<and> (y = [] \<or> last y \<noteq> CHR 0x22))"
    if "c \<in> set cleaned" for c
  proof (cases c)
    case None
    then show ?thesis by simp
  next
    case (Some y)
    with that obtain x where "y = clean_text x"
      by (auto simp: cleaned_def clean_excel_text_wrapper_def map_option_case split: option.splits)
    then have "strip y = y"
      by (simp add: strip_clean_text)
    from clean_text_fixed_iff[OF this] Some show ?thesis by simp
  qed
  have "clean_excel_text_wrapper cleaned = cleaned
          \<longleftrightarrow> (\<forall>c\<in>set cleaned. map_option clean_text c = c)"
    using map_eq_conv[of "map_option clean_text" cleaned id]
    by (simp add: clean_excel_text_wrapper_def)
  also have "\<dots> \<longleftrightarrow> (\<forall>c\<in>set cleaned. \<forall>y. c = Some y
                 \<longrightarrow> take 1 y \<noteq> ''='' \<and> (y = [] \<or> last y \<noteq> CHR 0x22))"
    using cell by blast
  also have "\<dots> \<longleftrightarrow> (\<forall>y. Some y \<in> set cleaned
                 \<longrightarrow> take 1 y \<noteq> ''='' \<and> (y = [] \<or> last y \<noteq> CHR 0x22))"
    by blast
  finally have series: "clean_excel_text_wrapper cleaned = cleaned
       \<longleftrightarrow> (\<forall>y. Some y \<in> set cleaned
                 \<longrightarrow> take 1 y \<noteq> ''='' \<and> (y = [] \<or> last y \<noteq> CHR 0x22))" .
  from one series[unfolded cleaned_def] show ?thesis ..
qed

theorem clean_excel_text_wrapper_twice_witness:
  "clean_text wrapped_03_0104 = ''03.0104''
   \<and> take 1 ''03.0104'' \<noteq> ''=''
   \<and> last ''03.0104'' \<noteq> CHR 0x22
   \<and> clean_text (clean_text wrapped_03_0104) = clean_text wrapped_03_0104"
  using clean_excel_text_wrapper_twice[of wrapped_03_0104] clean_text_wrapped by simp

subsection \<open>Codes that parse as floats\<close>

lemma digit_char: "k < 10 \<Longrightarrow> is_digit (''0123456789'' ! k)"
  unfolding is_digit_def by (rule nth_mem) simp

lemma show_nat_digits: "list_all is_digit (show_nat n)"
proof (induction n rule: show_nat.induct)
  case (1 n)
  show ?case
  proof (cases "n < 10")
    case True
    then show ?thesis
      by (subst show_nat.simps) (simp add: digit_char)
  next
    case False
    with 1 have "list_all is_digit (show_nat (n div 10))" by simp
    with False show ?thesis
      by (subst show_nat.simps) (simp add: digit_char)
  qed
qed

lemma show_nat_length_1: "n < 10 \<Longrightarrow> length (show_nat n) = 1"
  by (subst show_nat.simps) simp

lemma show_nat_length_2: "10 \<le> n \<Longrightarrow> n < 100 \<Longrightarrow> length (show_nat n) = 2"
  by (subst show_nat.simps) (simp add: show_nat_length_1)

lemma show_nat_length_pos: "1 \<le> length (show_nat n)"
  by (subst show_nat.simps) simp

lemma show_nat_length_3: "100 \<le> n \<Longrightarrow> 3 \<le> length (show_nat n)"
proof -
  assume n: "100 \<le> n"
  then have "10 \<le> n div 10" by simp
  then have "2 \<le> length (show_nat (n div 10))"
    using show_nat_length_pos[of "n div 10 div 10"]
    by (subst show_nat.simps) simp
  with n show ?thesis
    by (subst show_nat.simps) simp
qed

lemma show_nat_length_le_4: "n < 10000 \<Longrightarrow> length (show_nat n) \<le> 4"
proof -
  assume n: "n < 10000"
  have two: "length (show_nat m) \<le> 2" if "m < 100" for m
    using that show_nat_length_1[of m] show_nat_length_2[of m] by (cases "m < 10") simp_all
  have three: "length (show_nat m) \<le> 3" if "m < 1000" for m
  proof (cases "m < 10")
    case True
    then show ?thesis using show_nat_length_1[of m] by simp
  next
    case False
    from that have "m div 10 < 100" by simp
    from two[OF this] False show ?thesis
      by (subst show_nat.simps) simp
  qed
  show ?thesis
  proof (cases "n < 10")
    case True
    then show ?thesis using show_nat_length_1[of n] by simp
  next
    case False
    from n have "n div 10 < 1000" by simp
    from three[OF this] False show ?thesis
      by (subst show_nat.simps) simp
  qed
qed

lemma point_not_digit: "\<not> is_digit CHR ''.''" "\<not> is_digit CHR ''-''"
  by (simp_all add: is_digit_def)

lemma digit_not_sign: "is_digit d \<Longrightarrow> d \<noteq> CHR ''+'' \<and> d \<noteq> CHR ''-''"
  by (auto simp: is_digit_def)

lemma digits_no_point: "list_all is_digit ds \<Longrightarrow> CHR ''.'' \<notin> set ds"
  using point_not_digit(1) by (auto simp: list_all_iff)

lemma fraction_digits:
  "length (pad_left 4 (show_nat (r mod 10000))) = 4"
  "list_all is_digit (pad_left 4 (show_nat (r mod 10000)))"
proof -
  have "length (show_nat (r mod 10000)) \<le> 4"
    by (rule show_nat_length_le_4) simp
  then show "length (pad_left 4 (show_nat (r mod 10000))) = 4"
    by (simp add: pad_left_def)
  show "list_all is_digit (pad_left 4 (show_nat (r mod 10000)))"
    by (simp add: pad_left_def show_nat_digits is_digit_def list_all_iff[of _ "replicate _ _"])
qed

lemma spec_canonical_point:
  assumes "CHR ''.'' \<notin> set left" and "length fraction = 4"
  shows "spec_canonical (left @ ''.'' @ fraction) = zfill 2 left @ ''.'' @ fraction"
proof -
  have "takeWhile (\<lambda>c. c \<noteq> CHR ''.'') (left @ CHR ''.'' # fraction) = left"
    using assms(1) by (simp add: takeWhile_tail) (auto simp: takeWhile_eq_all_conv)
  then show ?thesis
    using assms(2) by (simp add: spec_canonical_def Let_def)
qed

lemma spec_canonical_has_point: "CHR ''.'' \<in> set s \<Longrightarrow> CHR ''.'' \<in> set (spec_canonical s)"
  by (simp add: spec_canonical_def Let_def)

lemma integer_part_no_point:
  "CHR ''.'' \<notin> set ((if negative then ''-'' else '''') @ show_nat n)"
  using digits_no_point[OF show_nat_digits, of n] by simp

lemma cip6_flag_of_float:
  assumes "length fraction = 4" and "list_all is_digit fraction"
  shows "fullmatch cip6_pattern
           (zfill 2 ((if negative then ''-'' else '''') @ show_nat n) @ ''.'' @ fraction)
         \<longleftrightarrow> \<not> negative \<and> n < 100"
proof -
  from assms(1) obtain d3 d4 d5 d6 where fraction: "fraction = [d3, d4, d5, d6]"
    by (auto simp: numeral_eq_Suc length_Suc_conv)
  with assms(2) have digits: "is_digit d3" "is_digit d4" "is_digit d5" "is_digit d6"
    by simp_all
  define left where "left = zfill 2 ((if negative then ''-'' else '''') @ show_nat n)"
  have match: "fullmatch cip6_pattern (left @ ''.'' @ fraction)
                 \<longleftrightarrow> (\<exists>d1 d2. left = [d1, d2] \<and> is_digit d1 \<and> is_digit d2)"
  proof
    assume "fullmatch cip6_pattern (left @ ''.'' @ fraction)"
    then obtain d1 d2 e3 e4 e5 e6
      where eq: "left @ ''.'' @ fraction = [d1, d2, CHR ''.'', e3, e4, e5, e6]"
        and d: "is_digit d1" "is_digit d2"
      unfolding fullmatch_cip6_iff by blast
    from eq have "length left = 2" by (simp add: fraction)
    then obtain a b where "left = [a, b]"
      by (auto simp: numeral_eq_Suc length_Suc_conv)
    with eq have "left = [d1, d2]"
      by simp
    with d show "\<exists>d1 d2. left = [d1, d2] \<and> is_digit d1 \<and> is_digit d2" by blast
  next
    assume "\<exists>d1 d2. left = [d1, d2] \<and> is_digit d1 \<and> is_digit d2"
    then show "fullmatch cip6_pattern (left @ ''.'' @ fraction)"
      unfolding fullmatch_cip6_iff using digits by (auto simp: fraction)
  qed
  have "(\<exists>d1 d2. left = [d1, d2] \<and> is_digit d1 \<and> is_digit d2) \<longleftrightarrow> \<not> negative \<and> n < 100"
  proof (cases negative)
    case True
    then have "left = CHR ''-'' # show_nat n"
      using show_nat_length_pos[of n] by (simp add: left_def zfill_def)
    then show ?thesis
      using True point_not_digit(2) by auto
  next
    case False
    note positive = this
    show ?thesis
    proof (cases "n < 10")
      case True
      then obtain d where d: "show_nat n = [d]" "is_digit d"
        using show_nat_length_1[of n] show_nat_digits[of n]
        by (cases "show_nat n") auto
      then have "left = [CHR ''0'', d]"
        using positive digit_not_sign[of d] by (simp add: left_def zfill_def)
      with d True positive show ?thesis
        by (simp add: is_digit_def)
    next
      case False
      show ?thesis
      proof (cases "n < 100")
        case True
        with False have "length (show_nat n) = 2"
          using show_nat_length_2[of n] by simp
        then obtain d1 d2 where two: "show_nat n = [d1, d2]"
          by (auto simp: numeral_eq_Suc length_Suc_conv)
        with show_nat_digits[of n] have d: "show_nat n = [d1, d2]" "is_digit d1" "is_digit d2"
          by simp_all
        then have "left = [d1, d2]"
          using positive by (simp add: left_def zfill_def)
        with d True positive show ?thesis by simp
      next
        case False
        then have "3 \<le> length (show_nat n)"
          using show_nat_length_3[of n] by simp
        then have "left = show_nat n" "length left \<noteq> 2"
          using positive by (simp_all add: left_def zfill_def)
        with False show ?thesis by auto
      qed
    qed
  qed
  with match show ?thesis
    by (simp add: left_def)
qed

lemma fmt4_not_finite:
  "\<forall>negative q. f \<noteq> Finite negative q \<Longrightarrow> spec_canonical (fmt4 f) = fmt4 f \<and> CHR ''.'' \<notin> set (fmt4 f)"
  by (cases f) (auto simp: spec_canonical_def zfill_def)

lemma format_cipcode_int_100: "format_cipcode (PInt 100) = Inr (Some ''100.0000'')"
proof -
  have shown_int: "py_str (PInt 100) = ''100''"
    by (simp add: show_int_def show_nat.simps)
  have parsed: "py_float ''100'' = Inr (Finite False 100)"
    by (simp add: parse_eval text_eval float_eval)
  have shown: "fmt4 (Finite False 100) = ''100.0000''"
    by (simp add: float_eval show_nat.simps pad_left_def replicate_numeral_Cons)
  show ?thesis
    by (simp add: format_cipcode_def isna_def numeric_formatting_def shown_int parsed shown
          text_eval del: py_str.simps fmt4.simps)
qed

lemma py_float_inf: "py_float ''inf'' = Inr (Infinity False)"
  by (simp add: parse_eval text_eval)

lemma format_cipcode_inf: "format_cipcode (PStr ''inf'') = Inr (Some ''inf'')"
  by (simp add: format_cipcode_def isna_def numeric_formatting_def py_float_inf text_eval)

text \<open>
  C10, as written. The text \<^verbatim>\<open>inf\<close> parses as a float and comes back as \<^verbatim>\<open>inf\<close>,
  with no point; the integer 100 parses as a float and gives \<^verbatim>\<open>100.0000\<close>, which is
  not flagged as a true 6-digit code.
\<close>

theorem format_cipcode_float_counterexample:
  "py_float (strip (py_str (PStr ''inf''))) = Inr (Infinity False)
   \<and> format_cipcode (PStr ''inf'') = Inr (Some ''inf'')
   \<and> py_float (strip (py_str (PInt 100))) = Inr (Finite False 100)
   \<and> format_cipcode (PInt 100) = Inr (Some ''100.0000'')
   \<and> \<not> str_fullmatch cip6_pattern (Some ''100.0000'')"
proof -
  have "py_float (strip (py_str (PInt 100))) = Inr (Finite False 100)"
    by (simp add: show_int_def show_nat.simps parse_eval text_eval float_eval)
  moreover have "py_float (strip (py_str (PStr ''inf''))) = Inr (Infinity False)"
    by (simp add: py_float_inf text_eval)
  moreover have "\<not> str_fullmatch cip6_pattern (Some ''100.0000'')"
    by (simp add: str_fullmatch_def fullmatch_cip6_iff)
  ultimately show ?thesis
    using format_cipcode_inf format_cipcode_int_100 by simp
qed

text \<open>
  C10, amended. Let the input be non-missing and its trimmed text neither empty nor
  \<^verbatim>\<open>nan\<close>. When the text parses as a finite float, of sign \<open>negative\<close> and magnitude
  \<open>q\<close>, and \<open>r\<close> is \<open>q\<close> in ten-thousandths rounded to the nearest integer, the code is
  the zero-filled integer part, a point and exactly four digits, and it is flagged as a
  true 6-digit code exactly when the float is not negative and the integer part is below
  100. A code without a point comes only from a text that fails float parsing and has no
  point, or from a text that parses as an infinity or a NaN, whose code is \<^verbatim>\<open>inf\<close>,
  \<^verbatim>\<open>-inf\<close> or \<^verbatim>\<open>nan\<close>. The integer 99 gives \<^verbatim>\<open>99.0000\<close>.
\<close>

theorem format_cipcode_float:
  assumes "\<not> isna val" and "s = strip (py_str val)" and "s \<noteq> []" and "lower s \<noteq> ''nan''"
  shows "(py_float s = Inr (Finite negative q) \<and> r = nat (round_half_even (q * 10000))
          \<longrightarrow> format_cipcode val
                = Inr (Some (zfill 2 ((if negative then ''-'' else '''') @ show_nat (r div 10000))
                             @ ''.'' @ pad_left 4 (show_nat (r mod 10000))))
              \<and> length (pad_left 4 (show_nat (r mod 10000))) = 4
              \<and> list_all is_digit (pad_left 4 (show_nat (r mod 10000)))
              \<and> (str_fullmatch cip6_pattern
                    (Some (zfill 2 ((if negative then ''-'' else '''') @ show_nat (r div 10000))
                           @ ''.'' @ pad_left 4 (show_nat (r mod 10000))))
                  \<longleftrightarrow> \<not> negative \<and> r div 10000 < 100))
       \<and> (format_cipcode val = Inr (Some code) \<and> CHR ''.'' \<notin> set code
          \<longrightarrow> ((\<exists>e. py_float s = Inl e) \<and> CHR ''.'' \<notin> set s)
              \<or> (\<exists>f. py_float s = Inr f \<and> (\<forall>negative q. f \<noteq> Finite negative q)
                      \<and> code = fmt4 f))
       \<and> format_cipcode (PInt 99) = Inr (Some ''99.0000'')"
proof -
  have code_eq: "format_cipcode val = Inr (Some (spec_canonical (spec_reformat s)))"
    using assms by (simp add: format_cipcode_eq spec_format_cipcode_trimmed_def Let_def)
  have finite: "format_cipcode val
                = Inr (Some (zfill 2 ((if negative then ''-'' else '''') @ show_nat (r div 10000))
                             @ ''.'' @ pad_left 4 (show_nat (r mod 10000))))
              \<and> length (pad_left 4 (show_nat (r mod 10000))) = 4
              \<and> list_all is_digit (pad_left 4 (show_nat (r mod 10000)))
              \<and> (str_fullmatch cip6_pattern
                    (Some (zfill 2 ((if negative then ''-'' else '''') @ show_nat (r div 10000))
                           @ ''.'' @ pad_left 4 (show_nat (r mod 10000))))
                  \<longleftrightarrow> \<not> negative \<and> r div 10000 < 100)"
    if parsed: "py_float s = Inr (Finite negative q)" and r: "r = nat (round_half_even (q * 10000))"
  proof -
    have "spec_reformat s
            = ((if negative then ''-'' else '''') @ show_nat (r div 10000)) @ ''.''
              @ pad_left 4 (show_nat (r mod 10000))"
      by (simp add: spec_reformat_def parsed r Let_def)
    then have "spec_canonical (spec_reformat s)
            = zfill 2 ((if negative then ''-'' else '''') @ show_nat (r div 10000)) @ ''.''
              @ pad_left 4 (show_nat (r mod 10000))"
      using spec_canonical_point[OF integer_part_no_point fraction_digits(1), of negative "r div 10000" r]
      by simp
    with code_eq fraction_digits[of r]
         cip6_flag_of_float[OF fraction_digits, of negative "r div 10000" r]
    show ?thesis
      by (simp add: str_fullmatch_def)
  qed
  have bare: "((\<exists>e. py_float s = Inl e) \<and> CHR ''.'' \<notin> set s)
              \<or> (\<exists>f. py_float s = Inr f \<and> (\<forall>negative q. f \<noteq> Finite negative q)
                      \<and> code = fmt4 f)"
    if code: "format_cipcode val = Inr (Some code)" and no_point: "CHR ''.'' \<notin> set code"
  proof (cases "py_float s")
    case (Inl e)
    then have "code = spec_canonical s"
      using code code_eq by (simp add: spec_reformat_def)
    with no_point spec_canonical_has_point[of s] Inl show ?thesis by auto
  next
    case (Inr f)
    then have c: "code = spec_canonical (fmt4 f)"
      using code code_eq by (simp add: spec_reformat_def)
    have "\<forall>negative q. f \<noteq> Finite negative q"
    proof (intro allI notI)
      fix negative q
      assume "f = Finite negative q"
      then have "CHR ''.'' \<in> set (fmt4 f)"
        by (simp add: Let_def)
      with c no_point spec_canonical_has_point show False by blast
    qed
    with c fmt4_not_finite[of f] Inr show ?thesis by auto
  qed
  from finite bare format_cipcode_int_99 show ?thesis by blast
qed

theorem format_cipcode_float_witness:
  "\<not> isna (PInt 99) \<and> strip (py_str (PInt 99)) = ''99'' \<and> lower ''99'' = ''99''
   \<and> py_float ''99'' = Inr (Finite False 99)
   \<and> nat (round_half_even (99 * 10000)) = 990000
   \<and> format_cipcode (PInt 99) = Inr (Some (''99'' @ ''.'' @ pad_left 4 (show_nat 0)))
   \<and> str_fullmatch cip6_pattern (Some (''99'' @ ''.'' @ pad_left 4 (show_nat 0)))
   \<and> format_cipcode (PStr ''7A'') = Inr (Some ''7A'')
   \<and> py_float ''7A'' = Inl (ValueError (Not_a_float ''7A''))"
proof -
  have missing: "\<not> isna (PInt 99)"
    by (simp add: isna_def)
  have trimmed: "''99'' = strip (py_str (PInt 99))"
    by (simp add: show_int_def show_nat.simps text_eval)
  have not_empty: "''99'' \<noteq> []" and lowered: "lower ''99'' = ''99''"
    and not_nan: "lower ''99'' \<noteq> ''nan''"
    by (simp_all add: text_eval)
  have parsed: "py_float ''99'' = Inr (Finite False 99)"
    by (simp add: parse_eval text_eval float_eval)
  have rounded: "990000 = nat (round_half_even (99 * 10000))"
    by (simp add: float_eval)
  have shown: "show_nat 99 = ''99''" "zfill 2 ''99'' = ''99''"
    by (simp_all add: show_nat.simps zfill_def)
  from format_cipcode_float[OF missing trimmed not_empty not_nan, of False 99 990000]
       parsed rounded
  have "format_cipcode (PInt 99)
          = Inr (Some (zfill 2 ((if False then ''-'' else []) @ show_nat (990000 div 10000))
                       @ ''.'' @ pad_left 4 (show_nat (990000 mod 10000))))
        \<and> (str_fullmatch cip6_pattern
              (Some (zfill 2 ((if False then ''-'' else []) @ show_nat (990000 div 10000))
                     @ ''.'' @ pad_left 4 (show_nat (990000 mod 10000))))
            \<longleftrightarrow> \<not> False \<and> (990000::nat) div 10000 < 100)"
    by blast
  then have float: "format_cipcode (PInt 99) = Inr (Some (''99'' @ ''.'' @ pad_left 4 (show_nat 0)))
        \<and> str_fullmatch cip6_pattern (Some (''99'' @ ''.'' @ pad_left 4 (show_nat 0)))"
    by (simp add: shown)
  have other: "format_cipcode (PStr ''7A'') = Inr (Some ''7A'')"
    "py_float ''7A'' = Inl (ValueError (Not_a_float ''7A''))"
    by (simp_all add: format_cipcode_def isna_def numeric_formatting_def parse_eval text_eval)
  from missing trimmed[symmetric] lowered parsed rounded[symmetric] float other
  show ?thesis by simp
qed

end
